theory Spec2Isabelle
  imports Main "HOL-Library.Word"
begin

unbundle bit_operations_syntax

section \<open>Data model of \<^verbatim>\<open>main.cpp\<close>\<close>

type_synonym u8 = "8 word"
type_synonym u16 = "16 word"
type_synonym u32 = "32 word"
type_synonym u64 = "64 word"

text \<open>
  \<^verbatim>\<open>int16_t\<close> fields are kept as 16-bit words and read with \<open>sint\<close> where the source
  compares or computes with their signed value.
\<close>

type_synonym s16 = "16 word"

text \<open>
  Sizes from \<^verbatim>\<open>config.h\<close> (the header is generated by \<^verbatim>\<open>setup_cpu.sh\<close>, which holds its
  text).
\<close>

definition MEM_SIZE_RAM :: nat where
  "MEM_SIZE_RAM = 0x1000"

definition MEM_SIZE_VECTOR :: nat where
  "MEM_SIZE_VECTOR = 0x800"

definition VECT_POINTS_PER_FRAME :: int where
  "VECT_POINTS_PER_FRAME = 2048"

text \<open>
  The ROM images (\<^verbatim>\<open>asteroid_roms.h\<close>) and the sequencer PROM (\<^verbatim>\<open>dvg_prom.h\<close>, read through
  \<^verbatim>\<open>dvg_prom_read\<close>) are generated from the arcade ROM set and are not part of the sources.
  They are parameters of the model: every result below holds for all contents.
\<close>

record config =
  asteroid_rom_vector :: "u8 list"
  asteroid_rom_prom0 :: "u8 list"
  asteroid_rom_prom1 :: "u8 list"
  asteroid_rom_prom2 :: "u8 list"
  dvg_prom_read :: "u8 \<Rightarrow> u8"

text \<open>The anonymous struct \<^verbatim>\<open>dvg_state\<close>.\<close>

record dvg_state_t =
  dvg_pc :: u16
  dvg_x :: s16
  dvg_y :: s16
  dvg_xpos :: s16
  dvg_ypos :: s16
  dvg_scale :: u8
  dvg_intensity :: u8
  dvg_dvx :: u16
  dvg_dvy :: u16
  dvg_op :: u8
  dvg_data :: u16
  dvg_state_latch :: u8
  dvg_stack :: "u16 list"
  dvg_stack_ptr :: u8
  dvg_halt :: bool
  dvg_running :: bool

text \<open>
  The anonymous struct \<^verbatim>\<open>vector_buffer\<close>: two arrays of \<^verbatim>\<open>VECT_POINTS_PER_FRAME\<close> entries
  and the number of entries in use.
\<close>

record vector_buffer_t =
  vb_points :: "(u16 \<times> u16) list"
  vb_intensity :: "u8 list"
  vb_count :: int

text \<open>The entries in use, in order: what \<^verbatim>\<open>render_vectors\<close> walks through.\<close>

definition samples :: "vector_buffer_t \<Rightarrow> ((u16 \<times> u16) \<times> u8) list" where
  "samples vb = map (\<lambda>i. (vb_points vb ! i, vb_intensity vb ! i)) [0 ..< nat (vb_count vb)]"

section \<open>The PROM-sequenced vector generator\<close>

text \<open>
  \<^verbatim>\<open>dvg_add_vector\<close>. The serial log and its static counters are left out. The starting point
  is stored as it is; only the end point is clipped.
\<close>

definition clip_1023 :: "s16 \<Rightarrow> s16" where
  "clip_1023 v = (let v1 = (if sint v < 0 then 0 else v) in if sint v1 > 1023 then 1023 else v1)"

definition dvg_add_vector ::
  "s16 \<Rightarrow> s16 \<Rightarrow> u8 \<Rightarrow> dvg_state_t \<times> vector_buffer_t \<Rightarrow> dvg_state_t \<times> vector_buffer_t" where
  "dvg_add_vector dx dy intensity = (\<lambda>(s, vb).
     if vb_count vb \<ge> VECT_POINTS_PER_FRAME then (s, vb)
     else
       let vb1 = (if vb_count vb = 0
                  then vb\<lparr>vb_points := (vb_points vb)[0 := (dvg_x s, dvg_y s)],
                          vb_intensity := (vb_intensity vb)[0 := 0],
                          vb_count := 1\<rparr>
                  else vb);
           s1 = s\<lparr>dvg_x := clip_1023 (dvg_x s + dx), dvg_y := clip_1023 (dvg_y s + dy)\<rparr>;
           n = nat (vb_count vb1)
       in (s1, vb1\<lparr>vb_points := (vb_points vb1)[n := (dvg_x s1, dvg_y s1)],
                   vb_intensity := (vb_intensity vb1)[n := intensity],
                   vb_count := vb_count vb1 + 1\<rparr>))"

text \<open>
  \<^verbatim>\<open>dvg_process_vector\<close>. The products are computed in \<^verbatim>\<open>int\<close> and cannot overflow 32 bits
  (a 16-bit value times a value below 2048); \<^verbatim>\<open>>> 8\<close> on a negative \<^verbatim>\<open>int\<close> is the
  arithmetic shift, which is \<open>div 256\<close> on \<open>int\<close>; the assignment to \<^verbatim>\<open>int16_t\<close> truncates.
  The shift \<^verbatim>\<open>2 << scale\<close> is taken on \<open>int\<close>; the scale register holds a nibble, for which
  the shift stays inside 32 bits.
\<close>

definition scale_val :: "u8 \<Rightarrow> int" where
  "scale_val sc = (push_bit (unat sc) 2) AND 0x7ff"

definition delta_of :: "u16 \<Rightarrow> s16" where
  "delta_of dv = (if dv AND 0x400 \<noteq> 0 then dv OR 0xF800 else dv AND 0x3FF)"

definition scaled :: "s16 \<Rightarrow> u8 \<Rightarrow> s16" where
  "scaled d sc = word_of_int ((sint d * scale_val sc) div 256)"

definition dvg_process_vector :: "dvg_state_t \<times> vector_buffer_t \<Rightarrow> dvg_state_t \<times> vector_buffer_t" where
  "dvg_process_vector = (\<lambda>(s, vb).
     dvg_add_vector (scaled (delta_of (dvg_dvx s)) (dvg_scale s))
                    (scaled (delta_of (dvg_dvy s)) (dvg_scale s))
                    (dvg_intensity s) (s, vb))"

text \<open>\<^verbatim>\<open>dvg_state_addr\<close>: the PROM address from the state latch and the opcode.\<close>

definition dvg_state_addr :: "dvg_state_t \<Rightarrow> u8" where
  "dvg_state_addr s =
     (let addr = push_bit 7 ((drop_bit 4 (dvg_state_latch s) XOR 1) AND 1) OR (dvg_state_latch s AND 0x0f)
      in if dvg_op s AND 0x08 \<noteq> 0 then addr OR push_bit 4 (dvg_op s AND 7) else addr)"

text \<open>
  \<^verbatim>\<open>dvg_update_databus\<close>: one byte from vector RAM or vector ROM, selected by the program
  counter and the low bit of the state latch. \<^verbatim>\<open>byte_addr\<close> is a \<^verbatim>\<open>uint16_t\<close>.
\<close>

definition dvg_update_databus :: "config \<Rightarrow> u8 list \<Rightarrow> dvg_state_t \<Rightarrow> dvg_state_t" where
  "dvg_update_databus cfg vector_ram s =
     (let dvg_addr = dvg_pc s;
          byte_addr = push_bit 1 dvg_addr + ucast (dvg_state_latch s AND 1) :: u16
      in if dvg_addr < 0x400 then
           (if byte_addr < 2048 then s\<lparr>dvg_data := ucast (vector_ram ! unat byte_addr)\<rparr>
            else s\<lparr>dvg_data := 0\<rparr>)
         else if dvg_addr < 0x800 then
           (let rom_offset = (dvg_addr - 0x400) * 2 + ucast (dvg_state_latch s AND 1) :: u16
            in if rom_offset < 2048
               then s\<lparr>dvg_data := ucast (asteroid_rom_vector cfg ! unat rom_offset)\<rparr>
               else s\<lparr>dvg_data := 0\<rparr>)
         else s\<lparr>dvg_data := 0\<rparr>)"

text \<open>The eight handlers. Each of them returns 0 in the source.\<close>

definition dvg_handler_0 :: "dvg_state_t \<Rightarrow> dvg_state_t" where
  "dvg_handler_0 s =
     (if dvg_op s AND 1 = 0 then
        (let sp = (dvg_stack_ptr s + 1) AND 0xf
         in s\<lparr>dvg_stack_ptr := sp, dvg_stack := (dvg_stack s)[unat (sp AND 3) := dvg_pc s]\<rparr>)
      else s)"

definition dvg_handler_1 :: "dvg_state_t \<Rightarrow> dvg_state_t" where
  "dvg_handler_1 s =
     (if dvg_op s AND 1 \<noteq> 0 then
        s\<lparr>dvg_pc := dvg_stack s ! unat (dvg_stack_ptr s AND 3),
          dvg_stack_ptr := (dvg_stack_ptr s - 1) AND 0xf\<rparr>
      else s\<lparr>dvg_pc := dvg_dvy s\<rparr>)"

definition dvg_handler_2 :: "dvg_state_t \<times> vector_buffer_t \<Rightarrow> dvg_state_t \<times> vector_buffer_t" where
  "dvg_handler_2 = dvg_process_vector"

definition dvg_handler_3 :: "dvg_state_t \<times> vector_buffer_t \<Rightarrow> dvg_state_t \<times> vector_buffer_t" where
  "dvg_handler_3 = (\<lambda>(s, vb).
     let op0 = dvg_op s AND 1;
         s1 = s\<lparr>dvg_halt := (op0 = 0)\<rparr>
     in if op0 = 0 then
          dvg_add_vector 0 0 0
            (s1\<lparr>dvg_xpos := dvg_dvx s AND 0xfff, dvg_ypos := dvg_dvy s AND 0xfff\<rparr>, vb)
        else (s1, vb))"

definition dvg_handler_7 :: "dvg_state_t \<Rightarrow> dvg_state_t" where
  "dvg_handler_7 s =
     s\<lparr>dvg_dvx := (dvg_dvx s AND 0xff) OR push_bit 8 (dvg_data s AND 0xf),
       dvg_intensity := ucast (drop_bit 4 (dvg_data s))\<rparr>"

definition dvg_handler_4 :: "dvg_state_t \<Rightarrow> dvg_state_t" where
  "dvg_handler_4 s =
     (let s1 = s\<lparr>dvg_dvy := dvg_dvy s AND 0xf00\<rparr>;
          s2 = (if dvg_op s1 = 0xf then dvg_handler_7 s1
                else s1\<lparr>dvg_dvy := (dvg_dvy s1 AND 0xf00) OR dvg_data s1\<rparr>)
      in s2\<lparr>dvg_pc := dvg_pc s2 + 1\<rparr>)"

definition dvg_handler_5 :: "dvg_state_t \<Rightarrow> dvg_state_t" where
  "dvg_handler_5 s =
     (let s1 = s\<lparr>dvg_dvy := (dvg_dvy s AND 0xff) OR push_bit 8 (dvg_data s AND 0xf),
                 dvg_op := ucast (drop_bit 4 (dvg_data s))\<rparr>
      in if dvg_op s1 = 0xf
         then s1\<lparr>dvg_dvx := dvg_dvx s1 AND 0xf00, dvg_dvy := dvg_dvy s1 AND 0xf00\<rparr>
         else s1)"

definition dvg_handler_6 :: "dvg_state_t \<Rightarrow> dvg_state_t" where
  "dvg_handler_6 s =
     (let s1 = s\<lparr>dvg_dvx := dvg_dvx s AND 0xf00\<rparr>;
          s2 = (if dvg_op s1 \<noteq> 0xf then s1\<lparr>dvg_dvx := (dvg_dvx s1 AND 0xf00) OR dvg_data s1\<rparr> else s1);
          op1 = drop_bit 1 (dvg_op s2) AND 1;
          op3 = drop_bit 3 (dvg_op s2) AND 1;
          s3 = (if op1 \<noteq> 0 \<and> op3 \<noteq> 0 then s2\<lparr>dvg_scale := dvg_intensity s2\<rparr> else s2)
      in s3\<lparr>dvg_pc := dvg_pc s3 + 1\<rparr>)"

text \<open>
  The \<^verbatim>\<open>switch\<close> of \<^verbatim>\<open>dvg_run_state_machine\<close>: the handler's return value (added to
  \<^verbatim>\<open>cycles\<close>) and the new state.
\<close>

definition dvg_dispatch ::
  "u8 \<Rightarrow> dvg_state_t \<times> vector_buffer_t \<Rightarrow> int \<times> (dvg_state_t \<times> vector_buffer_t)" where
  "dvg_dispatch handler = (\<lambda>(s, vb).
     if handler = 0 then (0, (dvg_handler_0 s, vb))
     else if handler = 1 then (0, (dvg_handler_1 s, vb))
     else if handler = 2 then (0, dvg_handler_2 (s, vb))
     else if handler = 3 then (0, dvg_handler_3 (s, vb))
     else if handler = 4 then (0, (dvg_handler_4 s, vb))
     else if handler = 5 then (0, (dvg_handler_5 s, vb))
     else if handler = 6 then (0, (dvg_handler_6 s, vb))
     else (0, (dvg_handler_7 s, vb)))"

text \<open>One pass through the body of the \<^verbatim>\<open>while\<close> loop, up to \<^verbatim>\<open>cycles++\<close>.\<close>

definition dvg_cycle ::
  "config \<Rightarrow> u8 list \<Rightarrow> dvg_state_t \<times> vector_buffer_t \<Rightarrow> int \<times> (dvg_state_t \<times> vector_buffer_t)" where
  "dvg_cycle cfg vector_ram = (\<lambda>(s, vb).
     let prom_addr = dvg_state_addr s;
         prom_data = dvg_prom_read cfg prom_addr;
         s1 = s\<lparr>dvg_state_latch := (dvg_state_latch s AND 0x10) OR (prom_data AND 0x0f)\<rparr>
     in if dvg_state_latch s1 AND 0x08 \<noteq> 0
        then dvg_dispatch (dvg_state_latch s1 AND 0x07) (dvg_update_databus cfg vector_ram s1, vb)
        else (0, (s1, vb)))"

text \<open>
  The loop \<^verbatim>\<open>while (!dvg_state.halt && max_iterations-- > 0 && cycles < 10000)\<close>. The result
  carries the final \<^verbatim>\<open>cycles\<close> and, as a counter that is not in the source, the number of
  times the body has run.
\<close>

function dvg_loop ::
  "config \<Rightarrow> u8 list \<Rightarrow> int \<Rightarrow> int \<Rightarrow> nat \<Rightarrow> dvg_state_t \<times> vector_buffer_t
     \<Rightarrow> (dvg_state_t \<times> vector_buffer_t) \<times> int \<times> nat" where
  "dvg_loop cfg vector_ram max_iterations cycles iters sv =
     (if \<not> dvg_halt (fst sv) \<and> max_iterations > 0 \<and> cycles < 10000
      then dvg_loop cfg vector_ram (max_iterations - 1)
             (cycles + fst (dvg_cycle cfg vector_ram sv) + 1) (Suc iters)
             (snd (dvg_cycle cfg vector_ram sv))
      else (sv, cycles, iters))"
  by pat_completeness auto
termination
  by (relation "measure (\<lambda>(cfg, vector_ram, max_iterations, cycles, iters, sv). nat max_iterations)") auto

declare dvg_loop.simps [simp del]

section \<open>The machine and its bus\<close>

record buttons_t =
  btn_rotate_left :: bool
  btn_rotate_right :: bool
  btn_thrust :: bool
  btn_hyperspace :: bool
  btn_fire :: bool
  btn_start :: bool
  btn_coin :: bool

text \<open>
  The globals of \<^verbatim>\<open>main.cpp\<close> that the bus callbacks read or write. \<open>game_start_time\<close> is
  the function-level static of the IN1 branch.
\<close>

record machine =
  ram :: "u8 list"
  vector_ram :: "u8 list"
  vector_buffer :: vector_buffer_t
  dvg_state :: dvg_state_t
  buttons :: buttons_t
  dip_switches :: u8
  clock_3khz :: bool
  total_cpu_cycles :: u64
  dvg_frame_count :: int
  game_start_time :: u32

text \<open>\<^verbatim>\<open>dvg_run_state_machine\<close>, without its serial output.\<close>

definition dvg_run_state_machine :: "config \<Rightarrow> machine \<Rightarrow> machine" where
  "dvg_run_state_machine cfg m =
     (if \<not> dvg_running (dvg_state m) then m
      else
        let s0 = (dvg_state m)\<lparr>dvg_halt := False\<rparr>;
            sv = fst (dvg_loop cfg (vector_ram m) 1000 0 0 (s0, vector_buffer m))
        in m\<lparr>dvg_state := (fst sv)\<lparr>dvg_running := False\<rparr>, vector_buffer := snd sv\<rparr>)"

text \<open>The input bytes assembled by the IN0 and IN1 branches of the read callback.\<close>

definition in0_byte :: "machine \<Rightarrow> u8" where
  "in0_byte m =
     (let in0 = 0;
          in0 = (if btn_hyperspace (buttons m) then in0 OR 0x08 else in0);
          in0 = (if btn_fire (buttons m) then in0 OR 0x10 else in0);
          in0 = (if total_cpu_cycles m AND 0x100 \<noteq> 0 then in0 OR 0x02 else in0);
          in0 = (if dvg_running (dvg_state m) \<and> \<not> dvg_halt (dvg_state m) then in0 OR 0x04 else in0)
      in in0)"

definition in1_byte :: "u32 \<Rightarrow> u32 \<Rightarrow> machine \<Rightarrow> u8" where
  "in1_byte now start_time m =
     (let in1 = 0;
          game_runtime = now - start_time;
          in1 = (if game_runtime \<ge> 2000 \<and> game_runtime < 4000 then in1 OR 0x01 else in1);
          in1 = (if game_runtime \<ge> 4000 \<and> game_runtime < 6000 then in1 OR 0x08 else in1);
          in1 = (if btn_coin (buttons m) then in1 OR 0x01 else in1);
          in1 = (if btn_start (buttons m) then in1 OR 0x08 else in1);
          in1 = (if btn_thrust (buttons m) then in1 OR 0x20 else in1);
          in1 = (if btn_rotate_right (buttons m) then in1 OR 0x40 else in1);
          in1 = (if btn_rotate_left (buttons m) then in1 OR 0x80 else in1)
      in in1)"

definition bit_select_result :: "u8 \<Rightarrow> u16 \<Rightarrow> u8" where
  "bit_select_result inp addr =
     (let bit_select = unat (addr AND 0x07);
          bit_value = drop_bit bit_select inp AND 0x01
      in if bit_value \<noteq> 0 then 0x80 else 0x7F)"

text \<open>
  \<^verbatim>\<open>cpu6502_read_callback\<close>. It returns the byte and the machine, since the IN0 branch
  stores \<^verbatim>\<open>clock_3khz\<close> and the IN1 branch stores its static start time. \<open>now\<close> is the value
  of \<^verbatim>\<open>millis()\<close> during the call.
\<close>

definition cpu6502_read_callback :: "config \<Rightarrow> u32 \<Rightarrow> u16 \<Rightarrow> machine \<Rightarrow> u8 \<times> machine" where
  "cpu6502_read_callback cfg now addr m =
     (if addr < 0x1000 then (ram m ! unat addr, m)
      else if addr \<ge> 0x4000 \<and> addr < 0x4800 then (vector_ram m ! unat (addr - 0x4000), m)
      else if addr \<ge> 0x5000 \<and> addr < 0x5800 then (asteroid_rom_vector cfg ! unat (addr - 0x5000), m)
      else if addr \<ge> 0x2000 \<and> addr < 0x2008 then
        (bit_select_result (in0_byte m) addr, m\<lparr>clock_3khz := (total_cpu_cycles m AND 0x100 \<noteq> 0)\<rparr>)
      else if addr \<ge> 0x2400 \<and> addr < 0x2408 then
        (let start_time = (if game_start_time m = 0 then now else game_start_time m)
         in (bit_select_result (in1_byte now start_time m) addr, m\<lparr>game_start_time := start_time\<rparr>))
      else if addr \<ge> 0x2800 \<and> addr < 0x2804 then
        (let bit_select = unat (addr AND 0x03);
             bit_pair = drop_bit (bit_select * 2) (dip_switches m) AND 0x03
         in (0xFC OR bit_pair, m))
      else if addr \<ge> 0x6800 then
        (if addr \<ge> 0xF800 then (asteroid_rom_prom2 cfg ! unat (addr - 0xF800), m)
         else
           let offset_from_base = addr - 0x6800;
               rom_offset = offset_from_base mod 0x1800
           in if rom_offset \<ge> 0x1000 then (asteroid_rom_prom2 cfg ! unat (rom_offset - 0x1000), m)
              else if rom_offset \<ge> 0x0800 then (asteroid_rom_prom1 cfg ! unat (rom_offset - 0x0800), m)
              else (asteroid_rom_prom0 cfg ! unat rom_offset, m))
      else (0xFF, m))"

text \<open>\<^verbatim>\<open>cpu6502_write_callback\<close>. The sound and latch ports return without any effect.\<close>

definition dvg_go :: "config \<Rightarrow> u8 \<Rightarrow> machine \<Rightarrow> machine" where
  "dvg_go cfg v m =
     dvg_run_state_machine cfg
       (m\<lparr>dvg_frame_count := dvg_frame_count m + 1,
          dvg_state := (dvg_state m)\<lparr>dvg_pc := push_bit 8 (ucast (v AND 0x0F)),
                                     dvg_running := True, dvg_halt := False, dvg_stack_ptr := 0,
                                     dvg_state_latch := 0x00, dvg_op := 0, dvg_data := 0,
                                     dvg_dvx := 0, dvg_dvy := 0\<rparr>,
          vector_buffer := (vector_buffer m)\<lparr>vb_count := 0\<rparr>\<rparr>)"

definition cpu6502_write_callback :: "config \<Rightarrow> u16 \<Rightarrow> u8 \<Rightarrow> machine \<Rightarrow> machine" where
  "cpu6502_write_callback cfg addr v m =
     (if addr < 0x1000 then
        (let v1 = (if addr = 0x5B \<and> v \<ge> 4 then 0 else v)
         in m\<lparr>ram := (ram m)[unat addr := v1]\<rparr>)
      else if addr \<ge> 0x4000 \<and> addr < 0x4800 then
        m\<lparr>vector_ram := (vector_ram m)[unat (addr - 0x4000) := v]\<rparr>
      else if addr = 0x3000 then dvg_go cfg v m
      else if addr = 0x3200 then m
      else if addr = 0x3400 then m
      else if addr = 0x3600 then m
      else if addr = 0x3A00 then m
      else if addr \<ge> 0x3C00 \<and> addr < 0x3C08 then m
      else if addr = 0x3E00 then m
      else m)"

text \<open>
  The state that \<^verbatim>\<open>setup()\<close> leaves in \<^verbatim>\<open>dvg_state\<close>: all zero, halted, the beam in the
  centre of the screen.
\<close>

definition dvg_state_setup :: dvg_state_t where
  "dvg_state_setup =
     \<lparr>dvg_pc = 0, dvg_x = 512, dvg_y = 512, dvg_xpos = 0, dvg_ypos = 0, dvg_scale = 0,
      dvg_intensity = 0, dvg_dvx = 0, dvg_dvy = 0, dvg_op = 0, dvg_data = 0, dvg_state_latch = 0,
      dvg_stack = [0, 0, 0, 0], dvg_stack_ptr = 0, dvg_halt = True, dvg_running = False\<rparr>"

text \<open>
  A sequence of nested subroutine calls, seen from the stack: each call runs the push handler
  with the program counter at that call's return address. (Between two calls the machine only
  loads the program counter and latches the next instruction; neither touches the stack.)
\<close>

definition nested_calls :: "u16 list \<Rightarrow> dvg_state_t \<Rightarrow> dvg_state_t" where
  "nested_calls pcs s = fold (\<lambda>p s. dvg_handler_0 (s\<lparr>dvg_pc := p\<rparr>)) pcs s"

section \<open>Concrete states and ROM contents for the examples\<close>

text \<open>
  The machine as \<^verbatim>\<open>setup()\<close> leaves it: RAM filled with the pattern \<^verbatim>\<open>(i * 7 + 123) & 0xFF\<close>
  and its first \<^verbatim>\<open>0x400\<close> bytes cleared again, the other globals zero-initialised, the DIP
  switches at \<^verbatim>\<open>0x84\<close>.
\<close>

definition vector_buffer_setup :: vector_buffer_t where
  "vector_buffer_setup =
     \<lparr>vb_points = replicate 2048 (0, 0), vb_intensity = replicate 2048 0, vb_count = 0\<rparr>"

definition buttons_released :: buttons_t where
  "buttons_released =
     \<lparr>btn_rotate_left = False, btn_rotate_right = False, btn_thrust = False,
      btn_hyperspace = False, btn_fire = False, btn_start = False, btn_coin = False\<rparr>"

definition machine_setup :: machine where
  "machine_setup =
     \<lparr>ram = map (\<lambda>i. if i < 0x400 then 0 else of_nat (i * 7 + 123)) [0 ..< 0x1000],
      vector_ram = replicate 0x800 0,
      vector_buffer = vector_buffer_setup,
      dvg_state = dvg_state_setup,
      buttons = buttons_released,
      dip_switches = 0x84,
      clock_3khz = False,
      total_cpu_cycles = 0,
      dvg_frame_count = 0,
      game_start_time = 0\<rparr>"

text \<open>
  ROM contents chosen for the examples: each 2 KB image is filled with one byte that tells
  the images apart; the sequencer PROM reads 0 everywhere.
\<close>

definition example_config :: config where
  "example_config =
     \<lparr>asteroid_rom_vector = replicate 2048 0x00,
      asteroid_rom_prom0 = replicate 2048 0xA0,
      asteroid_rom_prom1 = replicate 2048 0xA1,
      asteroid_rom_prom2 = replicate 2048 0xA2,
      dvg_prom_read = (\<lambda>a. 0)\<rparr>"

section \<open>Predicates on the vector buffer\<close>


definition first_sample_at :: "u16 \<times> u16 \<Rightarrow> vector_buffer_t \<Rightarrow> bool" where
  "first_sample_at p vb \<longleftrightarrow> 1 \<le> vb_count vb \<and> vb_points vb ! 0 = p"

definition starts_at_centre :: "dvg_state_t \<times> vector_buffer_t \<Rightarrow> bool" where
  "starts_at_centre sv \<longleftrightarrow>
     (vb_count (snd sv) = 0 \<and> dvg_x (fst sv) = 512 \<and> dvg_y (fst sv) = 512 \<and> vb_points (snd sv) \<noteq> [])
     \<or> first_sample_at (512, 512) (snd sv)"

definition stack_ok :: "dvg_state_t \<times> vector_buffer_t \<Rightarrow> bool" where
  "stack_ok sv \<longleftrightarrow> dvg_stack_ptr (fst sv) < 16 \<and> length (dvg_stack (fst sv)) = 4"

section \<open>The direct-opcode interpreter\<close>

text \<open>
  \<^verbatim>\<open>dvg_execute\<close> and its helpers. Temporaries of type \<^verbatim>\<open>int\<close> are computed on \<open>int\<close>; a
  store into an \<^verbatim>\<open>int16_t\<close> or \<^verbatim>\<open>uint8_t\<close> truncates with \<open>word_of_int\<close>. The division of C
  rounds towards zero, \<^verbatim>\<open>>>\<close> on a negative \<^verbatim>\<open>int\<close> rounds down.
\<close>

definition c_div :: "int \<Rightarrow> int \<Rightarrow> int" where
  "c_div a b = (if (a < 0) = (b < 0) then \<bar>a\<bar> div \<bar>b\<bar> else - (\<bar>a\<bar> div \<bar>b\<bar>))"

definition scale_table :: "int list" where
  "scale_table = [0, 1, 2, 3, 4, 5, 6, 8, 10, 12, 16, 20, 24, 32, 48, 64]"

definition dvg_reset :: "dvg_state_t \<Rightarrow> dvg_state_t" where
  "dvg_reset s =
     s\<lparr>dvg_pc := 0, dvg_x := 512, dvg_y := 512, dvg_scale := 0, dvg_intensity := 7,
       dvg_stack_ptr := 0, dvg_halt := False\<rparr>"

definition clip_4095 :: "s16 \<Rightarrow> s16" where
  "clip_4095 v = (let v1 = (if sint v < 0 then 0 else v) in if sint v1 > 4095 then 4095 else v1)"

definition dvg_add_point :: "s16 \<Rightarrow> s16 \<Rightarrow> u8 \<Rightarrow> vector_buffer_t \<Rightarrow> vector_buffer_t" where
  "dvg_add_point x y intensity vb =
     (if vb_count vb \<ge> VECT_POINTS_PER_FRAME then vb
      else
        let dac_x = clip_4095 (word_of_int (c_div (sint x * 4095) 1023));
            dac_y = clip_4095 (word_of_int (c_div (sint y * 4095) 1023));
            n = nat (vb_count vb)
        in vb\<lparr>vb_points := (vb_points vb)[n := (dac_x, dac_y)],
              vb_intensity := (vb_intensity vb)[n := word_of_int (c_div (uint intensity * 255) 15)],
              vb_count := vb_count vb + 1\<rparr>)"

definition dvg_read_word :: "config \<Rightarrow> u8 list \<Rightarrow> u16 \<Rightarrow> u16" where
  "dvg_read_word cfg vram addr =
     (if addr < 0x800 then
        (if addr \<ge> 0x7FF then 0
         else push_bit 8 (ucast (vram ! unat (addr + 1))) OR ucast (vram ! unat addr))
      else
        let rom_addr = addr - 0x800
        in if rom_addr \<ge> 0x7FF then 0
           else push_bit 8 (ucast (asteroid_rom_vector cfg ! unat (rom_addr + 1)))
                  OR ucast (asteroid_rom_vector cfg ! unat rom_addr))"

text \<open>Cases \<^verbatim>\<open>0x0\<close> to \<^verbatim>\<open>0x7\<close> of the \<^verbatim>\<open>switch\<close>: VCTR.\<close>

definition dvg_execute_vctr ::
  "u16 \<Rightarrow> dvg_state_t \<times> vector_buffer_t \<Rightarrow> dvg_state_t \<times> vector_buffer_t" where
  "dvg_execute_vctr opcode = (\<lambda>(s, vb).
     let dy = opcode AND 0x03;
         dx = drop_bit 2 opcode AND 0x03;
         brightness = ucast (drop_bit 4 opcode AND 0x0F) :: u8;
         len = uint (drop_bit 8 opcode AND 0x0F);
         dy = (if dy AND 0x02 \<noteq> 0 then dy OR 0xFFFC else dy);
         dx = (if dx AND 0x02 \<noteq> 0 then dx OR 0xFFFC else dx);
         scale = scale_table ! unat (dvg_scale s);
         dx = (word_of_int ((sint dx * len * scale) div 16) :: s16);
         dy = (word_of_int ((sint dy * len * scale) div 16) :: s16);
         x0 = dvg_x s;
         y0 = dvg_y s;
         x1 = x0 + dx;
         y1 = y0 + dy;
         steps = c_div (max \<bar>sint dx\<bar> \<bar>sint dy\<bar>) 4;
         steps = (if steps < 1 then 1 else steps);
         steps = (if steps > 20 then 20 else steps);
         vb1 = fold (\<lambda>i. dvg_add_point (word_of_int (sint x0 + c_div (sint dx * i) steps))
                                       (word_of_int (sint y0 + c_div (sint dy * i) steps))
                                       brightness)
                 [0 .. steps] vb
     in (s\<lparr>dvg_x := x1, dvg_y := y1\<rparr>, vb1))"

text \<open>Cases \<^verbatim>\<open>0xE\<close> and \<^verbatim>\<open>0xF\<close>: SVEC.\<close>

definition dvg_execute_svec ::
  "u16 \<Rightarrow> dvg_state_t \<times> vector_buffer_t \<Rightarrow> dvg_state_t \<times> vector_buffer_t" where
  "dvg_execute_svec opcode = (\<lambda>(s, vb).
     let dy = opcode AND 0x07;
         dx = drop_bit 8 opcode AND 0x07;
         brightness = ucast (drop_bit 4 opcode AND 0x0F) :: u8;
         dy = (if dy AND 0x04 \<noteq> 0 then dy OR 0xFFF8 else dy);
         dx = (if dx AND 0x04 \<noteq> 0 then dx OR 0xFFF8 else dx);
         scale = scale_table ! unat (dvg_scale s);
         dx = (word_of_int ((sint dx * scale) div 2) :: s16);
         dy = (word_of_int ((sint dy * scale) div 2) :: s16);
         x1 = dvg_x s + dx;
         y1 = dvg_y s + dy;
         vb1 = dvg_add_point (dvg_x s) (dvg_y s) brightness vb;
         vb2 = dvg_add_point x1 y1 brightness vb1
     in (s\<lparr>dvg_x := x1, dvg_y := y1\<rparr>, vb2))"

text \<open>One pass through the body of the loop of \<^verbatim>\<open>dvg_execute\<close>.\<close>

definition dvg_execute_op ::
  "config \<Rightarrow> u8 list \<Rightarrow> dvg_state_t \<times> vector_buffer_t \<Rightarrow> dvg_state_t \<times> vector_buffer_t" where
  "dvg_execute_op cfg vram = (\<lambda>(s0, vb).
     let opcode = dvg_read_word cfg vram (dvg_pc s0);
         s = s0\<lparr>dvg_pc := dvg_pc s0 + 2\<rparr>;
         op = drop_bit 12 opcode AND 0x0F
     in if op < 0x8 then dvg_execute_vctr opcode (s, vb)
        else if op = 0x8 \<or> op = 0x9 then
          (let next = dvg_read_word cfg vram (dvg_pc s);
               s1 = s\<lparr>dvg_pc := dvg_pc s + 2\<rparr>
           in (s1\<lparr>dvg_y := opcode AND 0x03FF, dvg_x := next AND 0x03FF\<rparr>, vb))
        else if op = 0xA then
          (let target = opcode AND 0x0FFF;
               s1 = (if dvg_stack_ptr s < 4
                     then s\<lparr>dvg_stack := (dvg_stack s)[unat (dvg_stack_ptr s) := dvg_pc s],
                            dvg_stack_ptr := dvg_stack_ptr s + 1\<rparr>
                     else s)
           in (s1\<lparr>dvg_pc := target\<rparr>, vb))
        else if op = 0xB then (s\<lparr>dvg_halt := True\<rparr>, vb)
        else if op = 0xC then
          (if dvg_stack_ptr s > 0
           then (s\<lparr>dvg_stack_ptr := dvg_stack_ptr s - 1,
                   dvg_pc := dvg_stack s ! unat (dvg_stack_ptr s - 1)\<rparr>, vb)
           else (s\<lparr>dvg_halt := True\<rparr>, vb))
        else if op = 0xD then (s\<lparr>dvg_pc := opcode AND 0x0FFF\<rparr>, vb)
        else dvg_execute_svec opcode (s, vb))"

text \<open>The loop \<^verbatim>\<open>while (!dvg_state.halt && max_ops-- > 0)\<close>.\<close>

function dvg_execute_loop ::
  "config \<Rightarrow> u8 list \<Rightarrow> int \<Rightarrow> dvg_state_t \<times> vector_buffer_t \<Rightarrow> dvg_state_t \<times> vector_buffer_t" where
  "dvg_execute_loop cfg vram max_ops sv =
     (if \<not> dvg_halt (fst sv) \<and> max_ops > 0
      then dvg_execute_loop cfg vram (max_ops - 1) (dvg_execute_op cfg vram sv)
      else sv)"
  by pat_completeness auto
termination
  by (relation "measure (\<lambda>(cfg, vram, max_ops, sv). nat max_ops)") auto

declare dvg_execute_loop.simps [simp del]

definition dvg_execute :: "config \<Rightarrow> machine \<Rightarrow> machine" where
  "dvg_execute cfg m =
     (let sv = dvg_execute_loop cfg (vector_ram m) 10000
                 (dvg_reset (dvg_state m), (vector_buffer m)\<lparr>vb_count := 0\<rparr>)
      in m\<lparr>dvg_state := fst sv, vector_buffer := snd sv\<rparr>)"

section \<open>The stepping loop and its interrupt pacing\<close>

text \<open>
  The locals of \<^verbatim>\<open>emulation_task\<close> that pace the NMI. The CPU itself is outside the model;
  the two calls \<^verbatim>\<open>cpu->NMI(false)\<close> (the line is pulled low: asserted) and
  \<^verbatim>\<open>cpu->NMI(true)\<close> (released) are the events of a step.
\<close>

record pacer =
  instruction_count :: u32
  total_instructions :: u64
  nmi_active :: bool
  nmi_release_count :: u32
  nmi_count :: u32

datatype nmi_event = NMI_assert | NMI_release

definition INSTRUCTIONS_PER_NMI :: u32 where
  "INSTRUCTIONS_PER_NMI = 300"

definition pacer_start :: pacer where
  "pacer_start =
     \<lparr>instruction_count = 0, total_instructions = 0, nmi_active = False,
      nmi_release_count = 0, nmi_count = 0\<rparr>"

text \<open>One pass through the body of \<^verbatim>\<open>while (true)\<close>: the new locals and the events.\<close>

definition emulation_step :: "pacer \<Rightarrow> pacer \<times> nmi_event list" where
  "emulation_step p =
     (let p1 = p\<lparr>instruction_count := instruction_count p + 1,
                 total_instructions := total_instructions p + 1\<rparr>;
          trigger = (\<not> nmi_active p1 \<and> instruction_count p1 \<ge> INSTRUCTIONS_PER_NMI);
          p2 = (if trigger
                then p1\<lparr>nmi_active := True, nmi_release_count := 0, instruction_count := 0,
                        nmi_count := nmi_count p1 + 1\<rparr>
                else p1);
          p3 = (if nmi_active p2 then p2\<lparr>nmi_release_count := nmi_release_count p2 + 1\<rparr> else p2);
          release = (nmi_active p3 \<and> nmi_release_count p3 \<ge> 3);
          p4 = (if release then p3\<lparr>nmi_active := False\<rparr> else p3)
      in (p4, (if trigger then [NMI_assert] else []) @ (if release then [NMI_release] else [])))"

text \<open>The locals after \<open>n\<close> steps, and the events of step \<open>n + 1\<close>.\<close>

fun pacer_after :: "nat \<Rightarrow> pacer" where
  "pacer_after 0 = pacer_start"
| "pacer_after (Suc n) = fst (emulation_step (pacer_after n))"

definition step_events :: "nat \<Rightarrow> nmi_event list" where
  "step_events n = snd (emulation_step (pacer_after (n - 1)))"

text \<open>The number of steps among the first \<open>N\<close> in which the line is asserted.\<close>

definition assert_count :: "nat \<Rightarrow> nat" where
  "assert_count N = length (filter (\<lambda>j. NMI_assert \<in> set (step_events j)) [1 ..< Suc N])"

section \<open>Sequencer entries and vector programs\<close>

text \<open>
  The output of the sequencer PROM at an address strobes a handler when bit 3 is set; bits 0
  to 2 then select the handler, and the low four bits become the next state. The address of
  a state with state index \<open>q\<close> and latched opcode \<open>op\<close> is \<open>0x80 + q\<close>, plus \<open>16 * (op mod 8)\<close>
  when bit 3 of the opcode is set (\<^verbatim>\<open>dvg_state_addr\<close>). \<open>prom_strobes cfg entries\<close> says that the
  PROM of \<open>cfg\<close> strobes handler \<open>h\<close> at address \<open>a\<close>, for every pair \<open>(a, h)\<close> of the list.
\<close>

definition prom_strobes :: "config \<Rightarrow> (u8 \<times> u8) list \<Rightarrow> bool" where
  "prom_strobes cfg entries \<longleftrightarrow>
     list_all (\<lambda>(a, h). dvg_prom_read cfg a AND 0x0f = 0x08 OR h) entries"


definition sentinel_program :: "u8 list" where
  "sentinel_program = [0x50, 0xF3, 0x00, 0xC0] @ replicate 2044 0"

definition call_program :: "u8 list" where
  "call_program = [0x04, 0xA0, 0x00, 0x00, 0x00, 0xB0, 0x00, 0x00, 0x00, 0xC0] @ replicate 2038 0"

text \<open>The machine after \<^verbatim>\<open>setup()\<close> with a given vector memory and the generator marked running.\<close>

definition machine_running :: "u8 list \<Rightarrow> machine" where
  "machine_running prog =
     machine_setup\<lparr>vector_ram := prog, dvg_state := dvg_state_setup\<lparr>dvg_running := True\<rparr>\<rparr>"

text \<open>
  A sequencer PROM for the examples. From the initial state it latches the opcode byte
  (handler 5) and the low byte (handler 4) of a word. With an opcode below 8 it goes on with
  the second word (handlers 7 and 6), the draw (handler 2) and the halt check (handler 3);
  with the sentinel opcode it draws and fetches the next word; with opcode \<open>0xA\<close> it pushes
  (handler 0), loads the program counter (handler 1) and fetches the next word; with opcode
  \<open>0xC\<close> it goes to the halt check.
\<close>

definition example_sequencer :: "u8 \<Rightarrow> u8" where
  "example_sequencer a =
     (if a = 0x80 then 0x0D
      else if a = 0x8D \<or> a = 0xFD \<or> a = 0xAD \<or> a = 0xCD then 0x0C
      else if a = 0x8C then 0x0F
      else if a = 0x8F then 0x0E
      else if a = 0x8E \<or> a = 0xFC then 0x0A
      else if a = 0x8A \<or> a = 0xCC then 0x0B
      else if a = 0xFA \<or> a = 0xA9 then 0x0D
      else if a = 0xAC then 0x08
      else if a = 0xA8 then 0x09
      else 0)"

definition sequencer_config :: config where
  "sequencer_config = example_config\<lparr>dvg_prom_read := example_sequencer\<rparr>"

section \<open>Bit masks as arithmetic\<close>

lemma mask_3: "(3 :: 'a::len word) = mask 2"
  by (simp add: mask_eq_exp_minus_1)

lemma mask_f: "(0xf :: 'a::len word) = mask 4"
  by (simp add: mask_eq_exp_minus_1)

lemma mask_ff: "(0xff :: 'a::len word) = mask 8"
  by (simp add: mask_eq_exp_minus_1)

lemma mask_f00: "(0xf00 :: u16) = push_bit 8 (mask 4)"
  by (simp add: mask_eq_exp_minus_1)

lemma unat_and_3: "unat ((w::u8) AND 3) = unat w mod 4"
  unfolding mask_3
  by (simp add: unsigned_take_bit_eq take_bit_eq_mod unat_mod_distrib flip: take_bit_eq_mask)

lemma unat_and_f: "unat ((w::u8) AND 0xf) = unat w mod 16"
  unfolding mask_f
  by (simp add: unsigned_take_bit_eq take_bit_eq_mod unat_mod_distrib flip: take_bit_eq_mask)

lemma uint_and_f: "uint ((w::u8) AND 0xf) = uint w mod 16"
  unfolding mask_f
  by (simp add: unsigned_take_bit_eq take_bit_eq_mod uint_mod_distrib flip: take_bit_eq_mask)

lemma and_f_id: "(w::u8) < 16 \<Longrightarrow> w AND 0xf = w"
  by (simp add: word_unat_eq_iff unat_and_f word_less_nat_alt)

lemma mod4_16: "(n::nat) mod 16 mod 4 = n mod 4"
  by (simp add: mod_mod_cancel)

lemma mod4_256: "(n::nat) mod 256 mod 4 = n mod 4"
  by (simp add: mod_mod_cancel)

lemma push_index: "unat ((((sp::u8) + 1) AND 0xf) AND 3) = (unat sp + 1) mod 4"
  by (simp add: unat_and_3 unat_and_f unat_word_ariths mod4_16 mod4_256)

lemma stack_ptr_roundtrip:
  assumes "(sp::u8) < 16"
  shows "(((sp + 1) AND 0xf) - 1) AND 0xf = sp"
proof -
  have "uint ((((sp + 1) AND 0xf) - 1) AND 0xf) = ((uint sp + 1) mod 256 mod 16 - 1) mod 256 mod 16"
    by (simp add: uint_and_f uint_word_ariths)
  also have "\<dots> = ((uint sp + 1) mod 16 - 1) mod 16"
    by (simp add: mod_mod_cancel)
  also have "\<dots> = (uint sp + 1 - 1) mod 16"
    by (simp only: mod_diff_left_eq)
  also have "\<dots> = uint (sp AND 0xf)"
    by (simp add: uint_and_f)
  finally show ?thesis
    using and_f_id[OF assms] by (simp add: word_uint_eq_iff)
qed

lemma high_nibble_of_byte: "ucast (drop_bit 4 (ucast (b::u8) :: u16)) = (drop_bit 4 b :: u8)"
  by (rule bit_word_eqI) (auto simp: bit_simps)

lemma low_nibble_of_byte: "(ucast (b::u8) :: u16) AND 0xf = ucast (b AND 0xf)"
  unfolding mask_f by (rule bit_word_eqI) (auto simp: bit_simps)

lemma merged_and_f00:
  "(((y::u16) AND 0xff) OR push_bit 8 (ucast ((b::u8) AND 0xf))) AND 0xf00 = push_bit 8 (ucast (b AND 0xf))"
  unfolding mask_f mask_ff mask_f00 by (rule bit_word_eqI) (auto simp: bit_simps)

lemma merged_high:
  "drop_bit 8 (((y::u16) AND 0xff) OR push_bit 8 (ucast ((b::u8) AND 0xf))) = ucast (b AND 0xf)"
  unfolding mask_f mask_ff by (rule bit_word_eqI) (auto simp: bit_simps)

lemma merged_low:
  "(((y::u16) AND 0xff) OR push_bit 8 (ucast ((b::u8) AND 0xf))) AND 0xff = y AND 0xff"
  unfolding mask_f mask_ff by (rule bit_word_eqI) (auto simp: bit_simps)

lemma shifted_high: "drop_bit 8 (push_bit 8 (ucast ((b::u8) AND 0xf)) :: u16) = ucast (b AND 0xf)"
  unfolding mask_f by (rule bit_word_eqI) (auto simp: bit_simps)

lemma shifted_low: "(push_bit 8 (ucast ((b::u8) AND 0xf)) :: u16) AND 0xff = 0"
  unfolding mask_f mask_ff by (rule bit_word_eqI) (auto simp: bit_simps)

section \<open>The subroutine stack\<close>

lemma dvg_handler_4_frame:
  "dvg_pc (dvg_handler_4 s) = dvg_pc s + 1"
  "dvg_stack (dvg_handler_4 s) = dvg_stack s"
  "dvg_stack_ptr (dvg_handler_4 s) = dvg_stack_ptr s"
  "dvg_op (dvg_handler_4 s) = dvg_op s"
  by (simp_all add: dvg_handler_4_def dvg_handler_7_def Let_def)

lemma stack_index_in_range: "unat ((w::u8) AND 3) < 4"
  by (simp add: unat_and_3)

text \<open>
  C5. A call followed by a return. The call word at word address \<open>dvg_pc s0\<close> is latched
  (handler 4 reads its low byte and steps the program counter past it), the push handler and
  the load handler run with opcode bit 0 clear; then the return word is latched, which leaves
  the stack and the stack pointer alone, and the load handler runs with opcode bit 0 set.
  Afterwards the program counter is the word address after the call and the stack pointer is
  what it was before the call. The stack pointer of the machine is always below 16: activation
  sets it to 0 and both handlers mask it with \<open>0xf\<close>.
\<close>

theorem call_then_return:
  assumes "length (dvg_stack s0) = 4" and "dvg_stack_ptr s0 < 16"
    and "dvg_op s0 AND 1 = 0"
    and "s1 = dvg_handler_1 (dvg_handler_0 (dvg_handler_4 s0))"
    and "dvg_stack s2 = dvg_stack s1" and "dvg_stack_ptr s2 = dvg_stack_ptr s1"
    and "dvg_op s2 AND 1 \<noteq> 0"
  shows "dvg_pc (dvg_handler_1 s2) = dvg_pc s0 + 1 \<and>
         dvg_stack_ptr (dvg_handler_1 s2) = dvg_stack_ptr s0"
  using assms
  by (simp add: dvg_handler_1_def dvg_handler_0_def dvg_handler_4_frame Let_def
        stack_ptr_roundtrip stack_index_in_range)

theorem call_then_return_witness:
  "dvg_pc (dvg_handler_1
     ((dvg_handler_1 (dvg_handler_0 (dvg_handler_4 (dvg_state_setup\<lparr>dvg_pc := 0x40, dvg_dvy := 0x123\<rparr>))))
        \<lparr>dvg_op := 0xD\<rparr>)) = 0x41 \<and>
   dvg_stack_ptr (dvg_handler_1
     ((dvg_handler_1 (dvg_handler_0 (dvg_handler_4 (dvg_state_setup\<lparr>dvg_pc := 0x40, dvg_dvy := 0x123\<rparr>))))
        \<lparr>dvg_op := 0xD\<rparr>)) = 0"
proof -
  let ?s0 = "dvg_state_setup\<lparr>dvg_pc := 0x40, dvg_dvy := 0x123\<rparr>"
  let ?s1 = "dvg_handler_1 (dvg_handler_0 (dvg_handler_4 ?s0))"
  have len: "length (dvg_stack ?s0) = 4"
    by (simp add: dvg_state_setup_def)
  have sp: "dvg_stack_ptr ?s0 < 16"
    by (simp add: dvg_state_setup_def)
  have call: "dvg_op ?s0 AND 1 = 0"
    by (simp add: dvg_state_setup_def)
  have st: "dvg_stack (?s1\<lparr>dvg_op := 0xD\<rparr>) = dvg_stack ?s1"
    by simp
  have ptr: "dvg_stack_ptr (?s1\<lparr>dvg_op := 0xD\<rparr>) = dvg_stack_ptr ?s1"
    by simp
  have ret: "dvg_op (?s1\<lparr>dvg_op := 0xD\<rparr>) AND 1 \<noteq> 0"
    by simp
  have pc0: "dvg_pc ?s0 + 1 = 0x41"
    by (simp add: dvg_state_setup_def)
  have sp0: "dvg_stack_ptr ?s0 = 0"
    by (simp add: dvg_state_setup_def)
  show ?thesis
    using call_then_return[OF len sp call refl st ptr ret] by (simp only: pc0 sp0)
qed

lemma nested_calls_snoc:
  "nested_calls (pcs @ [p]) s = dvg_handler_0 ((nested_calls pcs s)\<lparr>dvg_pc := p\<rparr>)"
  by (simp add: nested_calls_def)

lemma nested_calls_op: "dvg_op (nested_calls pcs s) = dvg_op s"
proof (induction pcs rule: rev_induct)
  case Nil
  show ?case by (simp add: nested_calls_def)
next
  case (snoc p pcs)
  then show ?case by (simp add: nested_calls_snoc dvg_handler_0_def Let_def)
qed

lemma nested_calls_length: "length (dvg_stack (nested_calls pcs s)) = length (dvg_stack s)"
proof (induction pcs rule: rev_induct)
  case Nil
  show ?case by (simp add: nested_calls_def)
next
  case (snoc p pcs)
  then show ?case by (simp add: nested_calls_snoc dvg_handler_0_def Let_def)
qed

lemma nested_calls_sp:
  "dvg_op s AND 1 = 0 \<Longrightarrow>
   unat (dvg_stack_ptr (nested_calls pcs s)) mod 4 = (unat (dvg_stack_ptr s) + length pcs) mod 4"
proof (induction pcs rule: rev_induct)
  case Nil
  then show ?case by (simp add: nested_calls_def)
next
  case (snoc p pcs)
  have "unat (dvg_stack_ptr (nested_calls (pcs @ [p]) s)) mod 4
      = (unat (dvg_stack_ptr (nested_calls pcs s)) + 1) mod 4"
    using snoc.prems
    by (simp add: nested_calls_snoc dvg_handler_0_def Let_def nested_calls_op
          unat_and_f mod4_16 unat_word_ariths mod4_256)
  also have "\<dots> = (unat (dvg_stack_ptr s) + length pcs + 1) mod 4"
    by (rule mod_add_cong[OF snoc.IH[OF snoc.prems] refl])
  finally show ?case by simp
qed

lemma slot_distinct:
  assumes "i < n" "n < i + 4"
  shows "(a + i + 1) mod 4 \<noteq> (a + n + 1) mod (4::nat)"
proof
  assume "(a + i + 1) mod 4 = (a + n + 1) mod 4"
  then have "(a + n + 1) mod 4 = (a + i + 1) mod 4"
    by simp
  moreover have "a + i + 1 \<le> a + n + 1"
    using assms by simp
  ultimately have "4 dvd (a + n + 1) - (a + i + 1)"
    by (simp add: mod_eq_dvd_iff_nat)
  then have "4 dvd n - i"
    by simp
  moreover have "0 < n - i"
    using assms by simp
  ultimately have "4 \<le> n - i"
    by (rule dvd_imp_le)
  then show False
    using assms by simp
qed

text \<open>
  C6, as the code has it. The push handler stores at index \<open>stack_ptr AND 3\<close>, so the stack
  wraps: every index used by a push or a pop is inside the four-entry array, and after any
  number of nested calls the entries of the last four calls are intact (call number \<open>i\<close>,
  counted from 0, sits in slot \<open>(stack_ptr + i + 1) mod 4\<close>). A fifth call therefore lands in
  the slot of the first one.
\<close>

theorem nested_calls_wrap:
  assumes len: "length (dvg_stack s) = 4" and op0: "dvg_op s AND 1 = 0"
  shows "length (dvg_stack (nested_calls pcs s)) = 4 \<and>
         unat (dvg_stack_ptr (nested_calls pcs s) AND 3) < length (dvg_stack (nested_calls pcs s)) \<and>
         (\<forall>i < length pcs. length pcs \<le> i + 4 \<longrightarrow>
            dvg_stack (nested_calls pcs s) ! ((unat (dvg_stack_ptr s) + i + 1) mod 4) = pcs ! i)"
proof -
  have keep: "\<forall>i < length pcs. length pcs \<le> i + 4 \<longrightarrow>
            dvg_stack (nested_calls pcs s) ! ((unat (dvg_stack_ptr s) + i + 1) mod 4) = pcs ! i"
  proof (induction pcs rule: rev_induct)
    case Nil
    then show ?case by simp
  next
    case (snoc p pcs)
    let ?t = "nested_calls pcs s"
    let ?n = "length pcs"
    have idx: "unat (((dvg_stack_ptr ?t + 1) AND 0xf) AND 3) = (unat (dvg_stack_ptr s) + ?n + 1) mod 4"
      unfolding push_index by (rule mod_add_cong[OF nested_calls_sp[OF op0] refl])
    have st: "dvg_stack (nested_calls (pcs @ [p]) s)
              = (dvg_stack ?t)[(unat (dvg_stack_ptr s) + ?n + 1) mod 4 := p]"
      using op0 idx by (simp add: nested_calls_snoc dvg_handler_0_def Let_def nested_calls_op)
    have l4: "length (dvg_stack ?t) = 4"
      by (simp add: nested_calls_length len)
    show ?case
    proof (intro allI impI)
      fix i
      assume i: "i < length (pcs @ [p])" and near: "length (pcs @ [p]) \<le> i + 4"
      show "dvg_stack (nested_calls (pcs @ [p]) s) ! ((unat (dvg_stack_ptr s) + i + 1) mod 4)
            = (pcs @ [p]) ! i"
      proof (cases "i = ?n")
        case True
        then show ?thesis by (simp add: st l4)
      next
        case False
        then have lt: "i < ?n" using i by simp
        have "?n < i + 4" using near by simp
        then have ne: "(unat (dvg_stack_ptr s) + i + 1) mod 4 \<noteq> (unat (dvg_stack_ptr s) + ?n + 1) mod 4"
          using lt by (rule slot_distinct[rotated])
        have "dvg_stack ?t ! ((unat (dvg_stack_ptr s) + i + 1) mod 4) = pcs ! i"
          using snoc.IH lt near by simp
        then show ?thesis using ne lt by (simp add: st nth_append)
      qed
    qed
  qed
  show ?thesis
    using keep by (simp add: nested_calls_length len unat_and_3)
qed

theorem nested_calls_wrap_witness:
  "dvg_stack (nested_calls [0x11, 0x22, 0x33, 0x44, 0x55] dvg_state_setup) ! 2 = 0x22 \<and>
   dvg_stack (nested_calls [0x11, 0x22, 0x33, 0x44, 0x55] dvg_state_setup) ! 1 = 0x55"
  using nested_calls_wrap[of dvg_state_setup "[0x11, 0x22, 0x33, 0x44, 0x55]"]
  by (simp add: dvg_state_setup_def nested_calls_def dvg_handler_0_def Let_def)

text \<open>
  C6 as the claim states it fails: from the state at activation, the entry made by the first
  of five nested calls holds the fifth call's return address afterwards.
\<close>

theorem nested_calls_overwrite_counterexample:
  "dvg_stack (nested_calls [0x11, 0x22, 0x33, 0x44] dvg_state_setup) ! 1 = 0x11 \<and>
   dvg_stack (nested_calls [0x11, 0x22, 0x33, 0x44, 0x55] dvg_state_setup) ! 1 \<noteq> 0x11"
  by (simp add: nested_calls_def dvg_handler_0_def dvg_state_setup_def Let_def)

section \<open>Handler 5\<close>

text \<open>
  C7, as the code has it. Handler 5 takes the high nibble of the data byte as the new opcode
  and its low nibble as bits 8 to 11 of the Y delta. When the new opcode is the sentinel
  \<open>0xf\<close>, both delta registers are masked with \<open>0xf00\<close>: their low bytes are cleared and
  their bits 8 to 11 are kept.
\<close>

theorem dvg_handler_5_latch:
  "let s' = dvg_handler_5 (s\<lparr>dvg_data := ucast (b::u8)\<rparr>) in
     dvg_op s' = drop_bit 4 b \<and>
     drop_bit 8 (dvg_dvy s') = ucast (b AND 0xf) \<and>
     (drop_bit 4 b \<noteq> 0xf \<longrightarrow> dvg_dvy s' AND 0xff = dvg_dvy s AND 0xff \<and> dvg_dvx s' = dvg_dvx s) \<and>
     (drop_bit 4 b = 0xf \<longrightarrow> dvg_dvy s' AND 0xff = 0 \<and> dvg_dvx s' = dvg_dvx s AND 0xf00)"
  by (simp add: dvg_handler_5_def Let_def high_nibble_of_byte low_nibble_of_byte
        merged_and_f00 merged_high merged_low shifted_high shifted_low)

theorem dvg_handler_5_latch_witness:
  "dvg_dvx (dvg_handler_5 (dvg_state_setup\<lparr>dvg_dvx := 0xABC, dvg_data := ucast (0xF5 :: u8)\<rparr>)) = 0xA00 \<and>
   dvg_dvy (dvg_handler_5 (dvg_state_setup\<lparr>dvg_dvx := 0xABC, dvg_data := ucast (0xF5 :: u8)\<rparr>)) AND 0xff = 0"
  using dvg_handler_5_latch[where s = "dvg_state_setup\<lparr>dvg_dvx := 0xABC\<rparr>" and b = "0xF5"]
  by (simp add: Let_def dvg_state_setup_def)

text \<open>
  C7 as the claim states it fails: with the data byte \<open>0xFF\<close> the new opcode is the sentinel,
  and bits 8 to 11 of both delta registers are still set afterwards.
\<close>

theorem dvg_handler_5_high_bits_counterexample:
  "dvg_op (dvg_handler_5 (dvg_state_setup\<lparr>dvg_dvx := 0xFFF, dvg_data := 0xFF\<rparr>)) = 0xf \<and>
   dvg_dvx (dvg_handler_5 (dvg_state_setup\<lparr>dvg_dvx := 0xFFF, dvg_data := 0xFF\<rparr>)) AND 0xF00 \<noteq> 0 \<and>
   dvg_dvy (dvg_handler_5 (dvg_state_setup\<lparr>dvg_dvx := 0xFFF, dvg_data := 0xFF\<rparr>)) AND 0xF00 \<noteq> 0"
  by (simp add: dvg_handler_5_def dvg_state_setup_def)

section \<open>The bus: ROM window\<close>

lemma u16_add_no_wrap: "unat a + unat b < 65536 \<Longrightarrow> unat (a + b :: u16) = unat a + unat b"
  by (simp add: unat_word_ariths)

lemma top_window:
  fixes addr :: u16
  assumes a: "0xF800 \<le> addr"
  shows "addr - 0xF800 < 0x800"
proof -
  have "unat (addr - 0xF800) = unat addr - 0xF800"
    using a by (simp add: unat_sub)
  moreover have "unat addr < 65536"
    using unsigned_less[of addr] by simp
  ultimately show ?thesis
    by (simp add: word_less_nat_alt)
qed

lemma rom_window_low:
  fixes r :: u16
  assumes "r < 0x1800"
  shows "0x6800 \<le> 0x6800 + r" "0x6800 + r < 0xF800"
proof -
  have u: "unat (0x6800 + r) = 0x6800 + unat r"
    using assms by (simp add: u16_add_no_wrap word_less_nat_alt)
  show "0x6800 \<le> 0x6800 + r"
    by (simp add: word_le_nat_alt u)
  show "0x6800 + r < 0xF800"
    using assms by (simp add: word_less_nat_alt u)
qed

lemma above_rom_base:
  fixes addr :: u16
  assumes "0x6800 \<le> addr"
  shows "\<not> addr < 0x1000" "\<not> addr < 0x4800" "\<not> addr < 0x5800" "\<not> addr < 0x2008"
    "\<not> addr < 0x2408" "\<not> addr < 0x2804"
  using assms by (simp_all add: word_le_nat_alt word_less_nat_alt)

lemma rom_read_low:
  assumes "0x6800 \<le> addr" "addr < 0xF800"
  shows "fst (cpu6502_read_callback cfg now addr m) =
     (let rom_offset = (addr - 0x6800) mod 0x1800
      in if rom_offset \<ge> 0x1000 then asteroid_rom_prom2 cfg ! unat (rom_offset - 0x1000)
         else if rom_offset \<ge> 0x0800 then asteroid_rom_prom1 cfg ! unat (rom_offset - 0x0800)
         else asteroid_rom_prom0 cfg ! unat rom_offset)"
proof -
  have "\<not> 0xF800 \<le> addr"
    using assms(2) by simp
  then show ?thesis
    using assms(1) above_rom_base[OF assms(1)]
    by (simp add: cpu6502_read_callback_def Let_def)
qed

lemma rom_read_high:
  assumes "0xF800 \<le> addr"
  shows "fst (cpu6502_read_callback cfg now addr m) = asteroid_rom_prom2 cfg ! unat (addr - 0xF800)"
proof -
  have b: "0x6800 \<le> addr"
    using assms by (simp add: word_le_nat_alt)
  show ?thesis
    using assms b above_rom_base[OF b]
    by (simp add: cpu6502_read_callback_def Let_def)
qed

lemma rom_read_top_image:
  fixes d :: u16
  assumes "d < 0x800"
  shows "fst (cpu6502_read_callback cfg now (0x7800 + d) m) = asteroid_rom_prom2 cfg ! unat d"
proof -
  have d: "unat d < 0x800"
    using assms by (simp add: word_less_nat_alt)
  have u: "unat (0x1000 + d) = 0x1000 + unat d"
    using d by (simp add: u16_add_no_wrap)
  have r: "0x1000 + d < 0x1800"
    using d by (simp add: word_less_nat_alt u)
  have md: "(0x1000 + d) mod 0x1800 = 0x1000 + d"
    using r by (rule mod_word_less)
  have ge: "0x1000 \<le> 0x1000 + d"
    by (simp add: word_le_nat_alt u)
  have "fst (cpu6502_read_callback cfg now (0x6800 + (0x1000 + d)) m) = asteroid_rom_prom2 cfg ! unat d"
    unfolding rom_read_low[OF rom_window_low[OF r]] using ge by (simp add: md Let_def)
  then show ?thesis by simp
qed

text \<open>
  C1, as the code has it. Below \<open>0xF800\<close> the program-ROM window repeats the 6 KB image:
  the read at \<open>0x6800 + k\<close> is the read at \<open>0x6800 + k mod 0x1800\<close>. The top 2 KB of the
  window, \<open>0xF800\<close> to \<open>0xFFFF\<close>, is a special case of the read callback: it always shows the
  last 2 KB of the image (PROM2, also visible at \<open>0x7800\<close>), so that the CPU vectors are
  found there.
\<close>

theorem rom_mirror:
  "(0x6800 \<le> addr \<and> addr < 0xF800 \<longrightarrow>
      fst (cpu6502_read_callback cfg now addr m) =
      fst (cpu6502_read_callback cfg now (0x6800 + (addr - 0x6800) mod 0x1800) m)) \<and>
   (0xF800 \<le> addr \<longrightarrow>
      fst (cpu6502_read_callback cfg now addr m) =
      fst (cpu6502_read_callback cfg now (0x7800 + (addr - 0xF800)) m))"
proof (intro conjI impI)
  assume a: "0x6800 \<le> addr \<and> addr < 0xF800"
  have r: "(addr - 0x6800) mod 0x1800 < 0x1800"
    by (rule word_mod_less_divisor) simp
  show "fst (cpu6502_read_callback cfg now addr m) =
      fst (cpu6502_read_callback cfg now (0x6800 + (addr - 0x6800) mod 0x1800) m)"
    using a by (simp add: rom_read_low[OF rom_window_low[OF r]] rom_read_low mod_word_less[OF r])
next
  assume a: "0xF800 \<le> addr"
  show "fst (cpu6502_read_callback cfg now addr m) =
      fst (cpu6502_read_callback cfg now (0x7800 + (addr - 0xF800)) m)"
    by (simp only: rom_read_high[OF a] rom_read_top_image[OF top_window[OF a]])
qed

theorem rom_mirror_witness:
  "fst (cpu6502_read_callback example_config 0 0x9000 machine_setup) =
   fst (cpu6502_read_callback example_config 0 (0x6800 + (0x9000 - 0x6800) mod 0x1800) machine_setup) \<and>
   fst (cpu6502_read_callback example_config 0 0xFFFC machine_setup) =
   fst (cpu6502_read_callback example_config 0 (0x7800 + (0xFFFC - 0xF800)) machine_setup)"
proof -
  have 1: "(0x6800::u16) \<le> 0x9000 \<and> (0x9000::u16) < 0xF800"
    by simp
  have 2: "(0xF800::u16) \<le> 0xFFFC"
    by simp
  show ?thesis
    using rom_mirror[of "0x9000" example_config 0 machine_setup, THEN conjunct1, rule_format, OF 1]
      rom_mirror[of "0xFFFC" example_config 0 machine_setup, THEN conjunct2, rule_format, OF 2]
    by (rule conjI)
qed

text \<open>
  C1 as the claim states it fails in the top 2 KB: \<open>0xF800\<close> is \<open>0x6800 + 0x9000\<close> and
  \<open>0x9000 mod 0x1800 = 0\<close>, so the mirrored address is \<open>0x6800\<close>, the first byte of PROM0,
  but the read returns the first byte of PROM2.
\<close>

theorem rom_mirror_counterexample:
  "fst (cpu6502_read_callback example_config 0 (0x6800 + 0x9000) machine_setup) = 0xA2 \<and>
   fst (cpu6502_read_callback example_config 0 (0x6800 + 0x9000 mod 0x1800) machine_setup) = 0xA0"
  by (simp add: cpu6502_read_callback_def example_config_def)

section \<open>The bus: RAM and writes to ROM\<close>

lemma write_rom_noop:
  "(0x5000 \<le> addr \<and> addr < 0x5800) \<or> 0x6800 \<le> addr \<Longrightarrow> cpu6502_write_callback cfg addr v m = m"
  unfolding cpu6502_write_callback_def
  by (auto simp: Let_def word_le_nat_alt word_less_nat_alt)

lemma ram_write_then_read:
  "length (ram m) = MEM_SIZE_RAM \<Longrightarrow> addr < 0x1000 \<Longrightarrow>
   fst (cpu6502_read_callback cfg now addr (cpu6502_write_callback cfg addr v m)) =
     (if addr = 0x5B \<and> v \<ge> 4 then 0 else v)"
  unfolding cpu6502_write_callback_def cpu6502_read_callback_def MEM_SIZE_RAM_def
  by (auto simp: Let_def word_less_nat_alt)

text \<open>
  C3, as the code has it. A byte written to RAM is read back, except at the zero-page address
  \<open>0x5B\<close>, where the write callback stores 0 in place of any value of 4 or more (the frame
  throttle workaround). A write to the vector ROM or to the program-ROM window leaves the
  whole machine as it was, so every later read is unchanged.
\<close>

theorem ram_write_read:
  assumes "length (ram m) = MEM_SIZE_RAM"
  shows "(addr < 0x1000 \<longrightarrow>
            fst (cpu6502_read_callback cfg now addr (cpu6502_write_callback cfg addr v m)) =
              (if addr = 0x5B \<and> v \<ge> 4 then 0 else v)) \<and>
         ((0x5000 \<le> addr \<and> addr < 0x5800) \<or> 0x6800 \<le> addr \<longrightarrow>
            cpu6502_write_callback cfg addr v m = m \<and>
            fst (cpu6502_read_callback cfg now addr (cpu6502_write_callback cfg addr v m)) =
              fst (cpu6502_read_callback cfg now addr m))"
  using assms by (simp add: ram_write_then_read write_rom_noop)

theorem ram_write_read_witness:
  "fst (cpu6502_read_callback example_config 0 0x0200
          (cpu6502_write_callback example_config 0x0200 0x7E machine_setup)) = 0x7E \<and>
   cpu6502_write_callback example_config 0x7000 0x7E machine_setup = machine_setup"
proof -
  have len: "length (ram machine_setup) = MEM_SIZE_RAM"
    by (simp add: machine_setup_def MEM_SIZE_RAM_def)
  have 1: "(0x0200::u16) < 0x1000"
    by simp
  have 2: "((0x5000::u16) \<le> 0x7000 \<and> (0x7000::u16) < 0x5800) \<or> (0x6800::u16) \<le> 0x7000"
    by simp
  have 3: "(if (0x0200::u16) = 0x5B \<and> (0x7E::u8) \<ge> 4 then 0 else (0x7E::u8)) = 0x7E"
    by simp
  show ?thesis
    using ram_write_read[OF len, of "0x0200" example_config 0 "0x7E", THEN conjunct1, rule_format, OF 1]
      ram_write_read[OF len, of "0x7000" example_config 0 "0x7E", THEN conjunct2, rule_format, OF 2]
    by (simp only: 3)
qed

text \<open>
  C3 as the claim states it fails at \<open>0x5B\<close>: after writing 7 the read returns 0.
\<close>

theorem ram_write_read_counterexample:
  "fst (cpu6502_read_callback example_config 0 0x5B
          (cpu6502_write_callback example_config 0x5B 7 machine_setup)) = 0"
  by (simp add: cpu6502_read_callback_def cpu6502_write_callback_def machine_setup_def)

section \<open>The bus: input ports\<close>

lemma bit_select_result_bit:
  "bit_select_result inp addr = (if bit inp (unat (addr AND 0x07)) then 0x80 else 0x7F)"
  by (simp add: bit_select_result_def Let_def bit_iff_odd_drop_bit and_one_eq
        even_iff_mod_2_eq_zero odd_iff_mod_2_eq_one)

lemma bit_u8_const:
  "bit (0x01::u8) n \<longleftrightarrow> n = 0"
  "bit (0x02::u8) n \<longleftrightarrow> n = 1"
  "bit (0x04::u8) n \<longleftrightarrow> n = 2"
  "bit (0x08::u8) n \<longleftrightarrow> n = 3"
  "bit (0x10::u8) n \<longleftrightarrow> n = 4"
  "bit (0x20::u8) n \<longleftrightarrow> n = 5"
  "bit (0x40::u8) n \<longleftrightarrow> n = 6"
  "bit (0x80::u8) n \<longleftrightarrow> n = 7"
proof -
  show "bit (0x01::u8) n \<longleftrightarrow> n = 0" by (simp add: bit_1_iff)
  show "bit (0x02::u8) n \<longleftrightarrow> n = 1" using bit_exp_iff[where 'a=u8, of 1 n] by auto
  show "bit (0x04::u8) n \<longleftrightarrow> n = 2" using bit_exp_iff[where 'a=u8, of 2 n] by auto
  show "bit (0x08::u8) n \<longleftrightarrow> n = 3" using bit_exp_iff[where 'a=u8, of 3 n] by auto
  show "bit (0x10::u8) n \<longleftrightarrow> n = 4" using bit_exp_iff[where 'a=u8, of 4 n] by auto
  show "bit (0x20::u8) n \<longleftrightarrow> n = 5" using bit_exp_iff[where 'a=u8, of 5 n] by auto
  show "bit (0x40::u8) n \<longleftrightarrow> n = 6" using bit_exp_iff[where 'a=u8, of 6 n] by auto
  show "bit (0x80::u8) n \<longleftrightarrow> n = 7" using bit_exp_iff[where 'a=u8, of 7 n] by auto
qed

lemma bit_cond_or: "bit (if c then a OR k else a) n \<longleftrightarrow> bit a n \<or> (c \<and> bit k n)"
  by (simp add: bit_or_iff)

lemma bit_u8_zero: "bit (0::u8) n \<longleftrightarrow> False"
  by simp

lemma in0_bits:
  "bit (in0_byte m) n \<longleftrightarrow>
     (n = 1 \<and> total_cpu_cycles m AND 0x100 \<noteq> 0) \<or>
     (n = 2 \<and> dvg_running (dvg_state m) \<and> \<not> dvg_halt (dvg_state m)) \<or>
     (n = 3 \<and> btn_hyperspace (buttons m)) \<or>
     (n = 4 \<and> btn_fire (buttons m))"
  apply (simp only: in0_byte_def Let_def bit_cond_or bit_u8_const bit_u8_zero)
  apply blast
  done

lemma in1_bits:
  "bit (in1_byte now st m) n \<longleftrightarrow>
     (n = 0 \<and> (btn_coin (buttons m) \<or> (2000 \<le> now - st \<and> now - st < 4000))) \<or>
     (n = 3 \<and> (btn_start (buttons m) \<or> (4000 \<le> now - st \<and> now - st < 6000))) \<or>
     (n = 5 \<and> btn_thrust (buttons m)) \<or>
     (n = 6 \<and> btn_rotate_right (buttons m)) \<or>
     (n = 7 \<and> btn_rotate_left (buttons m))"
  apply (simp only: in1_byte_def Let_def bit_cond_or bit_u8_const bit_u8_zero)
  apply blast
  done

text \<open>
  C8, as the code has it. A read of IN0 (\<open>0x2000 + k\<close>) or IN1 (\<open>0x2400 + k\<close>), \<open>k < 8\<close>,
  returns \<open>0x80\<close> when the logical input number \<open>k\<close> is active and \<open>0x7F\<close> when it is not:
  bit 7 is the input and the seven other bits are its complement. The inputs of IN0 are the
  3 kHz clock (bit 8 of the CPU cycle counter), the busy state of the vector generator,
  hyperspace and fire; those of IN1 are coin and start (each also active during a fixed
  window of milliseconds after the first IN1 read), thrust, right and left. The unused
  positions read as inactive.
\<close>

theorem input_port_read:
  assumes "k < 8"
  shows "fst (cpu6502_read_callback cfg now (0x2000 + of_nat k) m) =
           (if [False, total_cpu_cycles m AND 0x100 \<noteq> 0,
                dvg_running (dvg_state m) \<and> \<not> dvg_halt (dvg_state m),
                btn_hyperspace (buttons m), btn_fire (buttons m), False, False, False] ! k
            then 0x80 else 0x7F) \<and>
         fst (cpu6502_read_callback cfg now (0x2400 + of_nat k) m) =
           (let t = now - (if game_start_time m = 0 then now else game_start_time m)
            in if [btn_coin (buttons m) \<or> (2000 \<le> t \<and> t < 4000), False, False,
                   btn_start (buttons m) \<or> (4000 \<le> t \<and> t < 6000), False,
                   btn_thrust (buttons m), btn_rotate_right (buttons m), btn_rotate_left (buttons m)] ! k
               then 0x80 else 0x7F)"
proof -
  consider "k = 0" | "k = 1" | "k = 2" | "k = 3" | "k = 4" | "k = 5" | "k = 6" | "k = 7"
    using assms by linarith
  then show ?thesis
    by cases
      (simp_all add: cpu6502_read_callback_def Let_def bit_select_result_bit in0_bits in1_bits)
qed

theorem input_port_read_witness:
  "fst (cpu6502_read_callback example_config 0 (0x2000 + of_nat 4)
          (machine_setup\<lparr>buttons := buttons_released\<lparr>btn_fire := True\<rparr>\<rparr>)) = 0x80 \<and>
   fst (cpu6502_read_callback example_config 0 (0x2400 + of_nat 4)
          (machine_setup\<lparr>buttons := buttons_released\<lparr>btn_fire := True\<rparr>\<rparr>)) = 0x7F"
proof -
  have k: "(4::nat) < 8"
    by simp
  show ?thesis
    using input_port_read[OF k, of example_config 0
        "machine_setup\<lparr>buttons := buttons_released\<lparr>btn_fire := True\<rparr>\<rparr>"]
    by (simp add: Let_def)
qed

text \<open>
  C8 as the claim states it fails: with fire pressed the read of \<open>0x2004\<close> returns \<open>0x80\<close>,
  whose bits 0 to 6 are 0, not 1.
\<close>

theorem input_port_other_bits_counterexample:
  "fst (cpu6502_read_callback example_config 0 0x2004
          (machine_setup\<lparr>buttons := buttons_released\<lparr>btn_fire := True\<rparr>\<rparr>)) = 0x80 \<and>
   \<not> bit (0x80::u8) 0"
  by (simp add: cpu6502_read_callback_def bit_select_result_def in0_byte_def Let_def
        machine_setup_def buttons_released_def dvg_state_setup_def)

section \<open>The run of the state machine\<close>


lemma dvg_cycle_ret: "fst (dvg_cycle cfg vram sv) = 0"
  by (cases sv) (simp add: dvg_cycle_def dvg_dispatch_def Let_def)

lemma dvg_loop_unfold_run:
  "\<not> dvg_halt (fst sv) \<Longrightarrow> mi > 0 \<Longrightarrow> cy < 10000 \<Longrightarrow>
   dvg_loop cfg vram mi cy it sv =
   dvg_loop cfg vram (mi - 1) (cy + 1) (Suc it) (snd (dvg_cycle cfg vram sv))"
  by (subst dvg_loop.simps) (simp add: dvg_cycle_ret)

lemma dvg_loop_unfold_stop:
  assumes "\<not> (\<not> dvg_halt (fst sv) \<and> mi > 0 \<and> cy < 10000)"
  shows "dvg_loop cfg vram mi cy it sv = (sv, cy, it)"
  by (subst dvg_loop.simps) (rule if_not_P[OF assms])

lemma dvg_loop_counts:
  "snd (snd (dvg_loop cfg vram mi cy it sv)) \<le> it + nat mi \<and>
   fst (snd (dvg_loop cfg vram mi cy it sv)) - cy = int (snd (snd (dvg_loop cfg vram mi cy it sv))) - int it \<and>
   (dvg_halt (fst (fst (dvg_loop cfg vram mi cy it sv))) \<or>
    snd (snd (dvg_loop cfg vram mi cy it sv)) = it + nat mi \<or>
    fst (snd (dvg_loop cfg vram mi cy it sv)) \<ge> 10000)"
proof (induction cfg vram mi cy it sv rule: dvg_loop.induct)
  case (1 cfg vram mi cy it sv)
  show ?case
  proof (cases "\<not> dvg_halt (fst sv) \<and> mi > 0 \<and> cy < 10000")
    case True
    then have u: "dvg_loop cfg vram mi cy it sv =
        dvg_loop cfg vram (mi - 1) (cy + 1) (Suc it) (snd (dvg_cycle cfg vram sv))"
      by (simp add: dvg_loop_unfold_run)
    have ih: "snd (snd (dvg_loop cfg vram (mi - 1) (cy + 1) (Suc it) (snd (dvg_cycle cfg vram sv)))) \<le> Suc it + nat (mi - 1) \<and>
       fst (snd (dvg_loop cfg vram (mi - 1) (cy + 1) (Suc it) (snd (dvg_cycle cfg vram sv)))) - (cy + 1)
         = int (snd (snd (dvg_loop cfg vram (mi - 1) (cy + 1) (Suc it) (snd (dvg_cycle cfg vram sv))))) - int (Suc it) \<and>
       (dvg_halt (fst (fst (dvg_loop cfg vram (mi - 1) (cy + 1) (Suc it) (snd (dvg_cycle cfg vram sv))))) \<or>
        snd (snd (dvg_loop cfg vram (mi - 1) (cy + 1) (Suc it) (snd (dvg_cycle cfg vram sv)))) = Suc it + nat (mi - 1) \<or>
        fst (snd (dvg_loop cfg vram (mi - 1) (cy + 1) (Suc it) (snd (dvg_cycle cfg vram sv)))) \<ge> 10000)"
      using "1.IH"[OF True] by (simp add: dvg_cycle_ret)
    have m: "Suc it + nat (mi - 1) = it + nat mi"
      using True by arith
    show ?thesis
      unfolding u using ih m by auto
  next
    case False
    then have "dvg_loop cfg vram mi cy it sv = (sv, cy, it)"
      by (rule dvg_loop_unfold_stop)
    then show ?thesis
      using False by auto
  qed
qed

text \<open>
  C9. The loop of \<^verbatim>\<open>dvg_run_state_machine\<close> is a terminating recursion on
  \<^verbatim>\<open>max_iterations\<close>. Started as the source starts it (1000 iterations allowed, \<^verbatim>\<open>cycles\<close> at
  0), its body runs at most 1000 times, which is below the 10000 of the \<^verbatim>\<open>cycles\<close> test; it
  stops either with the halt flag set or after exactly 1000 passes. In both cases the function
  then clears \<^verbatim>\<open>running\<close>, so the machine is stopped and the busy bit read at \<open>0x2002\<close> says
  done.
\<close>

theorem dvg_run_bounded:
  "snd (snd (dvg_loop cfg vram 1000 0 0 sv)) \<le> 1000 \<and>
   (dvg_halt (fst (fst (dvg_loop cfg vram 1000 0 0 sv))) \<or> snd (snd (dvg_loop cfg vram 1000 0 0 sv)) = 1000) \<and>
   \<not> dvg_running (dvg_state (dvg_run_state_machine cfg m)) \<and>
   fst (cpu6502_read_callback cfg now 0x2002 (dvg_run_state_machine cfg m)) = 0x7F"
proof -
  have c: "snd (snd (dvg_loop cfg vram 1000 0 0 sv)) \<le> 1000"
    using dvg_loop_counts[of cfg vram 1000 0 0 sv] by simp
  have "fst (snd (dvg_loop cfg vram 1000 0 0 sv)) = int (snd (snd (dvg_loop cfg vram 1000 0 0 sv)))"
    using dvg_loop_counts[of cfg vram 1000 0 0 sv] by simp
  then have "fst (snd (dvg_loop cfg vram 1000 0 0 sv)) < 10000"
    using c by simp
  then have h: "dvg_halt (fst (fst (dvg_loop cfg vram 1000 0 0 sv))) \<or> snd (snd (dvg_loop cfg vram 1000 0 0 sv)) = 1000"
    using dvg_loop_counts[of cfg vram 1000 0 0 sv] by auto
  have r: "\<not> dvg_running (dvg_state (dvg_run_state_machine cfg m))"
    by (simp add: dvg_run_state_machine_def Let_def)
  have "fst (cpu6502_read_callback cfg now 0x2002 (dvg_run_state_machine cfg m)) = 0x7F"
    using r by (simp add: cpu6502_read_callback_def bit_select_result_bit in0_bits)
  with c h r show ?thesis by simp
qed

section \<open>Drawing into the cleared buffer\<close>


lemma dvg_loop_invariant:
  "(\<forall>sv. P sv \<longrightarrow> P (snd (dvg_cycle cfg vram sv))) \<Longrightarrow> P sv \<Longrightarrow>
   P (fst (dvg_loop cfg vram mi cy it sv))"
proof (induction cfg vram mi cy it sv rule: dvg_loop.induct)
  case (1 cfg vram mi cy it sv)
  show ?case
  proof (cases "\<not> dvg_halt (fst sv) \<and> mi > 0 \<and> cy < 10000")
    case True
    then have u: "dvg_loop cfg vram mi cy it sv =
        dvg_loop cfg vram (mi - 1) (cy + fst (dvg_cycle cfg vram sv) + 1) (Suc it) (snd (dvg_cycle cfg vram sv))"
      by (subst dvg_loop.simps) simp
    have "P (snd (dvg_cycle cfg vram sv))"
      using "1.prems" by blast
    then show ?thesis
      unfolding u using "1.IH"[OF True "1.prems"(1)] by blast
  next
    case False
    then show ?thesis
      using "1.prems" by (simp add: dvg_loop_unfold_stop)
  qed
qed






lemma samples_two:
  "vb_count vb = 2 \<Longrightarrow> samples vb = [(vb_points vb ! 0, vb_intensity vb ! 0), (vb_points vb ! 1, vb_intensity vb ! 1)]"
  by (simp add: samples_def upt_rec)

lemma samples_three:
  "vb_count vb = 3 \<Longrightarrow> samples vb = [(vb_points vb ! 0, vb_intensity vb ! 0),
     (vb_points vb ! 1, vb_intensity vb ! 1), (vb_points vb ! 2, vb_intensity vb ! 2)]"
  by (simp add: samples_def upt_rec numeral_2_eq_2)

lemmas handler_defs = dvg_cycle_def dvg_state_addr_def dvg_update_databus_def dvg_dispatch_def
  dvg_handler_0_def dvg_handler_1_def dvg_handler_2_def dvg_handler_3_def dvg_handler_4_def
  dvg_handler_5_def dvg_handler_6_def dvg_handler_7_def dvg_process_vector_def dvg_add_vector_def
  scaled_def delta_of_def scale_val_def clip_1023_def VECT_POINTS_PER_FRAME_def










section \<open>The two interpreters\<close>


lemma samples_first:
  "first_sample_at p vb \<Longrightarrow> samples vb \<noteq> [] \<and> fst (hd (samples vb)) = p"
proof -
  assume a: "first_sample_at p vb"
  then have "0 < nat (vb_count vb)" by (simp add: first_sample_at_def)
  then have "[0 ..< nat (vb_count vb)] = 0 # [1 ..< nat (vb_count vb)]"
    by (simp add: upt_conv_Cons)
  then show ?thesis using a by (simp add: samples_def first_sample_at_def)
qed

lemma samples_empty: "vb_count vb = 0 \<Longrightarrow> samples vb = []"
  by (simp add: samples_def)


lemma dvg_add_vector_centre:
  "starts_at_centre (s, vb) \<Longrightarrow> starts_at_centre (dvg_add_vector dx dy i (s, vb))"
  by (auto simp: starts_at_centre_def first_sample_at_def dvg_add_vector_def Let_def
        VECT_POINTS_PER_FRAME_def neq_Nil_conv)

lemma handler_beam:
  "dvg_x (dvg_handler_0 s) = dvg_x s" "dvg_y (dvg_handler_0 s) = dvg_y s"
  "dvg_x (dvg_handler_1 s) = dvg_x s" "dvg_y (dvg_handler_1 s) = dvg_y s"
  "dvg_x (dvg_handler_4 s) = dvg_x s" "dvg_y (dvg_handler_4 s) = dvg_y s"
  "dvg_x (dvg_handler_5 s) = dvg_x s" "dvg_y (dvg_handler_5 s) = dvg_y s"
  "dvg_x (dvg_handler_6 s) = dvg_x s" "dvg_y (dvg_handler_6 s) = dvg_y s"
  "dvg_x (dvg_handler_7 s) = dvg_x s" "dvg_y (dvg_handler_7 s) = dvg_y s"
  "dvg_x (dvg_update_databus cfg vram s) = dvg_x s" "dvg_y (dvg_update_databus cfg vram s) = dvg_y s"
  by (simp_all add: dvg_handler_0_def dvg_handler_1_def dvg_handler_4_def dvg_handler_5_def
        dvg_handler_6_def dvg_handler_7_def dvg_update_databus_def Let_def)

lemma starts_at_centre_beam:
  "starts_at_centre (s, vb) \<Longrightarrow> dvg_x s' = dvg_x s \<Longrightarrow> dvg_y s' = dvg_y s \<Longrightarrow> starts_at_centre (s', vb)"
  by (simp add: starts_at_centre_def)

lemma dvg_cycle_centre:
  assumes "starts_at_centre sv"
  shows "starts_at_centre (snd (dvg_cycle cfg vram sv))"
proof (cases sv)
  case (Pair s vb)
  have a: "starts_at_centre (s, vb)" using assms Pair by simp
  have b: "\<And>s'. dvg_x s' = dvg_x s \<Longrightarrow> dvg_y s' = dvg_y s \<Longrightarrow> starts_at_centre (s', vb)"
    by (rule starts_at_centre_beam[OF a])
  show ?thesis
    unfolding Pair dvg_cycle_def dvg_dispatch_def dvg_handler_2_def dvg_handler_3_def
      dvg_process_vector_def
    by (simp add: Let_def b handler_beam dvg_add_vector_centre)
qed

lemma dvg_run_centre:
  assumes "dvg_running (dvg_state m)" "vb_count (vector_buffer m) = 0"
    "dvg_x (dvg_state m) = 512" "dvg_y (dvg_state m) = 512" "vb_points (vector_buffer m) \<noteq> []"
  shows "starts_at_centre (dvg_state (dvg_run_state_machine cfg m), vector_buffer (dvg_run_state_machine cfg m))"
proof -
  let ?sv = "((dvg_state m)\<lparr>dvg_halt := False\<rparr>, vector_buffer m)"
  have a: "starts_at_centre ?sv"
    using assms by (simp add: starts_at_centre_def)
  have "starts_at_centre (fst (dvg_loop cfg (vector_ram m) 1000 0 0 ?sv))"
    by (rule dvg_loop_invariant[where P = starts_at_centre, OF _ a]) (simp add: dvg_cycle_centre)
  then show ?thesis
    using assms(1) by (simp add: dvg_run_state_machine_def Let_def starts_at_centre_def)
qed

lemma dvg_execute_loop_unfold_run:
  "\<not> dvg_halt (fst sv) \<Longrightarrow> max_ops > 0 \<Longrightarrow>
   dvg_execute_loop cfg vram max_ops sv =
   dvg_execute_loop cfg vram (max_ops - 1) (dvg_execute_op cfg vram sv)"
  by (subst dvg_execute_loop.simps) simp

lemma dvg_execute_loop_unfold_stop:
  "dvg_halt (fst sv) \<Longrightarrow> dvg_execute_loop cfg vram max_ops sv = sv"
  by (subst dvg_execute_loop.simps) simp

lemmas execute_defs = dvg_execute_def dvg_reset_def dvg_execute_op_def dvg_read_word_def
  dvg_execute_svec_def dvg_add_point_def c_div_def clip_4095_def scale_table_def
  VECT_POINTS_PER_FRAME_def machine_running_def machine_setup_def dvg_state_setup_def
  vector_buffer_setup_def

lemma execute_sentinel:
  "samples (vector_buffer (dvg_execute cfg (machine_running sentinel_program))) =
     [((2049, 2049), 85), ((2049, 2049), 85)]"
  by (simp add: execute_defs dvg_execute_loop_unfold_run dvg_execute_loop_unfold_stop Let_def
        sentinel_program_def samples_two)

lemma execute_call:
  "samples (vector_buffer (dvg_execute cfg (machine_running call_program))) = [] \<and>
   dvg_pc (dvg_state (dvg_execute cfg (machine_running call_program))) = 6 \<and>
   dvg_stack (dvg_state (dvg_execute cfg (machine_running call_program))) = [2, 0, 0, 0]"
  by (simp add: execute_defs dvg_execute_loop_unfold_run dvg_execute_loop_unfold_stop Let_def
        call_program_def samples_def)

lemma run_sentinel:
  assumes "prom_strobes cfg [(0x80, 5), (0xFD, 4), (0xFC, 2), (0xFA, 5), (0xCD, 4), (0xCC, 3)]"
  shows "samples (vector_buffer (dvg_run_state_machine cfg (machine_running sentinel_program))) =
         [((512, 512), 0), ((512, 518), 5), ((512, 518), 0)]"
  using assms
  by (simp add: dvg_run_state_machine_def machine_running_def machine_setup_def
        prom_strobes_def dvg_loop_unfold_run dvg_loop_unfold_stop handler_defs Let_def
        dvg_state_setup_def vector_buffer_setup_def sentinel_program_def samples_three)

lemma run_call:
  assumes "prom_strobes cfg [(0x80, 5), (0xAD, 4), (0xAC, 0), (0xA8, 1), (0xA9, 5), (0xCD, 4), (0xCC, 3)]"
  shows "samples (vector_buffer (dvg_run_state_machine cfg (machine_running call_program))) =
           [((512, 512), 0), ((512, 512), 0)] \<and>
         dvg_pc (dvg_state (dvg_run_state_machine cfg (machine_running call_program))) = 5 \<and>
         dvg_stack (dvg_state (dvg_run_state_machine cfg (machine_running call_program))) = [0, 1, 0, 0]"
  using assms
  by (simp add: dvg_run_state_machine_def machine_running_def machine_setup_def
        prom_strobes_def dvg_loop_unfold_run dvg_loop_unfold_stop handler_defs Let_def
        dvg_state_setup_def vector_buffer_setup_def call_program_def samples_two)

lemma run_execute_differ:
  "samples (vector_buffer (dvg_run_state_machine cfg (machine_running sentinel_program))) \<noteq>
   samples (vector_buffer (dvg_execute cfg (machine_running sentinel_program)))"
proof -
  let ?m = "machine_running sentinel_program"
  have st: "dvg_state ?m = dvg_state_setup\<lparr>dvg_running := True\<rparr>"
    by (simp add: machine_running_def)
  have vb: "vector_buffer ?m = vector_buffer_setup"
    by (simp add: machine_running_def machine_setup_def)
  have pts: "vb_points (vector_buffer ?m) \<noteq> []"
    unfolding vb by (simp add: vector_buffer_setup_def)
  have cnt: "vb_count (vector_buffer ?m) = 0"
    unfolding vb by (simp add: vector_buffer_setup_def)
  have e: "samples (vector_buffer (dvg_execute cfg ?m)) = [((2049, 2049), 85), ((2049, 2049), 85)]"
    by (rule execute_sentinel)
  have "starts_at_centre (dvg_state (dvg_run_state_machine cfg ?m), vector_buffer (dvg_run_state_machine cfg ?m))"
  proof (rule dvg_run_centre[OF _ cnt _ _ pts])
    show "dvg_running (dvg_state ?m)" unfolding st by simp
    show "dvg_x (dvg_state ?m) = 512" unfolding st by (simp add: dvg_state_setup_def)
    show "dvg_y (dvg_state ?m) = 512" unfolding st by (simp add: dvg_state_setup_def)
  qed
  then consider "vb_count (vector_buffer (dvg_run_state_machine cfg ?m)) = 0"
    | "first_sample_at (512, 512) (vector_buffer (dvg_run_state_machine cfg ?m))"
    by (auto simp: starts_at_centre_def)
  then show ?thesis
  proof cases
    case 1
    then have "samples (vector_buffer (dvg_run_state_machine cfg ?m)) = []"
      by (rule samples_empty)
    then show ?thesis
      unfolding e by simp
  next
    case 2
    have "fst (hd (samples (vector_buffer (dvg_run_state_machine cfg ?m)))) = (512, 512)"
      using samples_first[OF 2] by simp
    moreover have "fst (hd (samples (vector_buffer (dvg_execute cfg ?m)))) = (2049, 2049)"
      unfolding e by simp
    ultimately show ?thesis
      by auto
  qed
qed

text \<open>
  C4. There is a vector memory on which the PROM-sequenced interpreter and the direct-opcode
  interpreter, started from the same machine (the state after \<^verbatim>\<open>setup()\<close> with the generator
  marked running), leave different sample lists, whatever the sequencer PROM and the ROM
  images hold: \<open>sentinel_program\<close>, whose first word \<open>0xF350\<close> has the sentinel \<open>0xF\<close> as its
  top nibble. The two interpreters differ on that word and on the call word \<open>0xA004\<close> of
  \<open>call_program\<close>.

  The sentinel word. \<^verbatim>\<open>dvg_execute\<close> decodes it as a short vector, takes the X delta from
  bits 8 to 10 and multiplies it with entry 0 of its scale table, which is 0: it stores two
  points at the unmoved beam, scaled to the DAC range, (2049, 2049), with intensity
  \<open>5 * 255 / 15 = 85\<close>, and halts on the next word. In the state machine, handler 5 latches
  bits 8 to 11 as the high bits of the Y delta and clears the low bytes, handler 4 takes the
  low byte as intensity and high bits of the X delta, and the draw moves the beam by
  \<open>0x300 * 2 / 256 = 6\<close> in Y: start point (512, 512), end point (512, 518) with intensity 5,
  and the point of the halt check.

  The call word. \<^verbatim>\<open>dvg_execute\<close> pushes the byte address 2 of the next word and takes the
  target 4 as a byte address: it reads its next word, the halt instruction, from bytes 4 and
  5, and stops with the program counter at 6 and no sample. In the state machine, handler 0
  pushes the word address 1 and handler 1 loads the target 4 as a word address: the next
  word is read from bytes 8 and 9, where the halt check halts with the program counter at 5
  and its two samples.

  The sequencer PROM is not among the sources. What the state machine does on the two
  memories is stated for every PROM that strobes, at the addresses the run visits, the
  handlers that latch the bytes of a word (5, then 4), then the draw (2) for the sentinel
  word, push and load (0, then 1) for the call word, and the halt check (3) for \<open>0xC000\<close>.
\<close>

theorem interpreters_disagree:
  "(\<exists>vram. length vram = MEM_SIZE_VECTOR \<and>
      (\<forall>c. samples (vector_buffer (dvg_run_state_machine c (machine_running vram)))
           \<noteq> samples (vector_buffer (dvg_execute c (machine_running vram))))) \<and>
   samples (vector_buffer (dvg_execute cfg (machine_running sentinel_program))) =
     [((2049, 2049), 85), ((2049, 2049), 85)] \<and>
   (prom_strobes cfg [(0x80, 5), (0xFD, 4), (0xFC, 2), (0xFA, 5), (0xCD, 4), (0xCC, 3)] \<longrightarrow>
      samples (vector_buffer (dvg_run_state_machine cfg (machine_running sentinel_program))) =
        [((512, 512), 0), ((512, 518), 5), ((512, 518), 0)]) \<and>
   samples (vector_buffer (dvg_execute cfg (machine_running call_program))) = [] \<and>
   dvg_pc (dvg_state (dvg_execute cfg (machine_running call_program))) = 6 \<and>
   dvg_stack (dvg_state (dvg_execute cfg (machine_running call_program))) = [2, 0, 0, 0] \<and>
   (prom_strobes cfg [(0x80, 5), (0xAD, 4), (0xAC, 0), (0xA8, 1), (0xA9, 5), (0xCD, 4), (0xCC, 3)] \<longrightarrow>
      samples (vector_buffer (dvg_run_state_machine cfg (machine_running call_program))) =
        [((512, 512), 0), ((512, 512), 0)] \<and>
      dvg_pc (dvg_state (dvg_run_state_machine cfg (machine_running call_program))) = 5 \<and>
      dvg_stack (dvg_state (dvg_run_state_machine cfg (machine_running call_program))) = [0, 1, 0, 0])"
proof -
  have len: "length sentinel_program = MEM_SIZE_VECTOR"
    by (simp add: sentinel_program_def MEM_SIZE_VECTOR_def)
  have ex: "\<exists>vram. length vram = MEM_SIZE_VECTOR \<and>
      (\<forall>c. samples (vector_buffer (dvg_run_state_machine c (machine_running vram)))
           \<noteq> samples (vector_buffer (dvg_execute c (machine_running vram))))"
    using len run_execute_differ by blast
  show ?thesis
    using ex execute_sentinel[of cfg] run_sentinel[of cfg] execute_call[of cfg] run_call[of cfg]
    by blast
qed

theorem interpreters_disagree_witness:
  "prom_strobes sequencer_config [(0x80, 5), (0xFD, 4), (0xFC, 2), (0xFA, 5), (0xCD, 4), (0xCC, 3)] \<and>
   samples (vector_buffer (dvg_run_state_machine sequencer_config (machine_running sentinel_program))) =
     [((512, 512), 0), ((512, 518), 5), ((512, 518), 0)] \<and>
   samples (vector_buffer (dvg_execute sequencer_config (machine_running sentinel_program))) =
     [((2049, 2049), 85), ((2049, 2049), 85)] \<and>
   prom_strobes sequencer_config [(0x80, 5), (0xAD, 4), (0xAC, 0), (0xA8, 1), (0xA9, 5), (0xCD, 4), (0xCC, 3)] \<and>
   samples (vector_buffer (dvg_run_state_machine sequencer_config (machine_running call_program))) =
     [((512, 512), 0), ((512, 512), 0)] \<and>
   dvg_pc (dvg_state (dvg_run_state_machine sequencer_config (machine_running call_program))) = 5 \<and>
   samples (vector_buffer (dvg_execute sequencer_config (machine_running call_program))) = [] \<and>
   dvg_pc (dvg_state (dvg_execute sequencer_config (machine_running call_program))) = 6"
proof -
  have p: "prom_strobes sequencer_config [(0x80, 5), (0xFD, 4), (0xFC, 2), (0xFA, 5), (0xCD, 4), (0xCC, 3)]"
    by (simp add: prom_strobes_def sequencer_config_def example_sequencer_def)
  have q: "prom_strobes sequencer_config [(0x80, 5), (0xAD, 4), (0xAC, 0), (0xA8, 1), (0xA9, 5), (0xCD, 4), (0xCC, 3)]"
    by (simp add: prom_strobes_def sequencer_config_def example_sequencer_def)
  show ?thesis
    using interpreters_disagree[of sequencer_config] p q by blast
qed

section \<open>Interrupt pacing\<close>


lemma u32_succ: "unat (w::u32) < 300 \<Longrightarrow> unat (w + 1) = unat w + 1"
  by (simp add: unat_word_ariths)

lemma le_300: "INSTRUCTIONS_PER_NMI \<le> (w::u32) \<longleftrightarrow> 300 \<le> unat w"
  by (simp add: INSTRUCTIONS_PER_NMI_def word_le_nat_alt)

lemma le_3: "3 \<le> (w::u32) \<longleftrightarrow> 3 \<le> unat w"
  by (simp add: word_le_nat_alt)

lemma step_trigger:
  assumes "\<not> nmi_active p" "unat (instruction_count p) = 299"
  shows "unat (instruction_count (fst (emulation_step p))) = 0"
    "nmi_active (fst (emulation_step p))"
    "unat (nmi_release_count (fst (emulation_step p))) = 1"
    "snd (emulation_step p) = [NMI_assert]"
  using assms by (simp_all add: emulation_step_def Let_def le_300 le_3 u32_succ)

lemma step_idle:
  assumes "\<not> nmi_active p" "unat (instruction_count p) < 299"
  shows "unat (instruction_count (fst (emulation_step p))) = unat (instruction_count p) + 1"
    "\<not> nmi_active (fst (emulation_step p))"
    "snd (emulation_step p) = []"
  using assms by (simp_all add: emulation_step_def Let_def le_300 le_3 u32_succ)

lemma step_hold:
  assumes "nmi_active p" "unat (instruction_count p) < 299" "unat (nmi_release_count p) = 1"
  shows "unat (instruction_count (fst (emulation_step p))) = unat (instruction_count p) + 1"
    "nmi_active (fst (emulation_step p))"
    "unat (nmi_release_count (fst (emulation_step p))) = 2"
    "snd (emulation_step p) = []"
  using assms by (simp_all add: emulation_step_def Let_def le_300 le_3 u32_succ)

lemma step_release:
  assumes "nmi_active p" "unat (instruction_count p) < 299" "unat (nmi_release_count p) = 2"
  shows "unat (instruction_count (fst (emulation_step p))) = unat (instruction_count p) + 1"
    "\<not> nmi_active (fst (emulation_step p))"
    "snd (emulation_step p) = [NMI_release]"
  using assms by (simp_all add: emulation_step_def Let_def le_300 le_3 u32_succ)


lemma mod_300_Suc:
  "n mod 300 = 299 \<Longrightarrow> Suc n mod 300 = 0"
  "n mod 300 < 299 \<Longrightarrow> Suc n mod 300 = n mod 300 + 1"
  by (simp_all add: mod_Suc)

lemma pacer_after_inv:
  "unat (instruction_count (pacer_after n)) = n mod 300 \<and>
   (nmi_active (pacer_after n) \<longleftrightarrow> 300 \<le> n \<and> n mod 300 < 2) \<and>
   (nmi_active (pacer_after n) \<longrightarrow> unat (nmi_release_count (pacer_after n)) = n mod 300 + 1)"
proof (induction n)
  case 0
  show ?case by (simp add: pacer_start_def)
next
  case (Suc n)
  let ?p = "pacer_after n"
  have ic: "unat (instruction_count ?p) = n mod 300"
    and act: "nmi_active ?p \<longleftrightarrow> 300 \<le> n \<and> n mod 300 < 2"
    and rc: "nmi_active ?p \<longrightarrow> unat (nmi_release_count ?p) = n mod 300 + 1"
    using Suc.IH by blast+
  have lt: "n mod 300 < 300" by simp
  have le: "n mod 300 \<le> n" by (rule mod_less_eq_dividend)
  consider (trigger) "n mod 300 = 299"
    | (idle) "n mod 300 < 299" "\<not> nmi_active ?p"
    | (hold) "n mod 300 = 0" "nmi_active ?p"
    | (release) "n mod 300 = 1" "nmi_active ?p"
    using lt act by fastforce
  then show ?case
  proof cases
    case trigger
    then have na: "\<not> nmi_active ?p" using act by simp
    have i: "unat (instruction_count ?p) = 299" using ic trigger by simp
    have "300 \<le> Suc n" using trigger le by simp
    then show ?thesis
      using step_trigger[OF na i] mod_300_Suc(1)[OF trigger] by simp
  next
    case idle
    have i: "unat (instruction_count ?p) < 299" using ic idle by simp
    have "\<not> (300 \<le> Suc n \<and> Suc n mod 300 < 2)"
      using idle act mod_300_Suc(2)[OF idle(1)] by auto
    then show ?thesis
      using step_idle[OF idle(2) i] mod_300_Suc(2)[OF idle(1)] ic by simp
  next
    case hold
    have i: "unat (instruction_count ?p) < 299" using ic hold by simp
    have r: "unat (nmi_release_count ?p) = 1" using rc hold by simp
    have s: "Suc n mod 300 = 1" using mod_300_Suc(2)[of n] hold by simp
    have "300 \<le> Suc n" using hold act by simp
    then show ?thesis
      using step_hold[OF hold(2) i r] s ic hold by simp
  next
    case release
    have i: "unat (instruction_count ?p) < 299" using ic release by simp
    have r: "unat (nmi_release_count ?p) = 2" using rc release by simp
    have s: "Suc n mod 300 = 2" using mod_300_Suc(2)[of n] release by simp
    show ?thesis
      using step_release[OF release(2) i r] s ic release by simp
  qed
qed

lemma step_events_eq:
  "step_events (Suc n) =
     (if Suc n mod 300 = 0 then [NMI_assert]
      else if 300 \<le> Suc n \<and> Suc n mod 300 = 2 then [NMI_release] else [])"
proof -
  let ?p = "pacer_after n"
  have ic: "unat (instruction_count ?p) = n mod 300"
    and act: "nmi_active ?p \<longleftrightarrow> 300 \<le> n \<and> n mod 300 < 2"
    and rc: "nmi_active ?p \<longrightarrow> unat (nmi_release_count ?p) = n mod 300 + 1"
    using pacer_after_inv[of n] by blast+
  have lt: "n mod 300 < 300" by simp
  have ev: "step_events (Suc n) = snd (emulation_step ?p)"
    by (simp add: step_events_def)
  consider (trigger) "n mod 300 = 299"
    | (idle) "n mod 300 < 299" "\<not> nmi_active ?p"
    | (hold) "n mod 300 = 0" "nmi_active ?p"
    | (release) "n mod 300 = 1" "nmi_active ?p"
    using lt act by fastforce
  then show ?thesis
  proof cases
    case trigger
    then have na: "\<not> nmi_active ?p" using act by simp
    have i: "unat (instruction_count ?p) = 299" using ic trigger by simp
    show ?thesis
      unfolding ev using step_trigger(4)[OF na i] mod_300_Suc(1)[OF trigger] by simp
  next
    case idle
    have i: "unat (instruction_count ?p) < 299" using ic idle by simp
    have "\<not> (300 \<le> Suc n \<and> Suc n mod 300 = 2)"
      using idle act mod_300_Suc(2)[OF idle(1)] by auto
    then show ?thesis
      unfolding ev using step_idle(3)[OF idle(2) i] mod_300_Suc(2)[OF idle(1)] by simp
  next
    case hold
    have i: "unat (instruction_count ?p) < 299" using ic hold by simp
    have r: "unat (nmi_release_count ?p) = 1" using rc hold by simp
    have s: "Suc n mod 300 = 1" using mod_300_Suc(2)[of n] hold by simp
    show ?thesis
      unfolding ev using step_hold(4)[OF hold(2) i r] s by simp
  next
    case release
    have i: "unat (instruction_count ?p) < 299" using ic release by simp
    have r: "unat (nmi_release_count ?p) = 2" using rc release by simp
    have s: "Suc n mod 300 = 2" using mod_300_Suc(2)[of n] release by simp
    have "300 \<le> Suc n" using release act by simp
    then show ?thesis
      unfolding ev using step_release(3)[OF release(2) i r] s by simp
  qed
qed

lemma step_events_pos:
  "0 < j \<Longrightarrow> step_events j =
     (if j mod 300 = 0 then [NMI_assert]
      else if 300 \<le> j \<and> j mod 300 = 2 then [NMI_release] else [])"
  using step_events_eq[of "j - 1"] by simp

lemma assert_count_eq: "assert_count N = N div 300"
proof (induction N)
  case 0
  show ?case by (simp add: assert_count_def)
next
  case (Suc N)
  have "assert_count (Suc N) = assert_count N + (if NMI_assert \<in> set (step_events (Suc N)) then 1 else 0)"
    by (simp add: assert_count_def)
  also have "\<dots> = N div 300 + (if Suc N mod 300 = 0 then 1 else 0)"
    by (simp add: Suc.IH step_events_eq)
  also have "\<dots> = Suc N div 300"
    by (simp add: div_Suc)
  finally show ?case .
qed

text \<open>
  C10, as the code has it. In the first \<open>N\<close> steps of the stepping loop the NMI line is
  asserted \<open>N div 300\<close> times, once in every step whose number is a multiple of the threshold.
  The release counter starts to count in the asserting step itself, so it reaches 3 two
  steps later: the line is released in the second step after the one that asserted it, and
  not before.
\<close>

theorem nmi_pacing:
  "assert_count N = N div unat INSTRUCTIONS_PER_NMI \<and>
   (\<forall>j. 0 < j \<and> NMI_assert \<in> set (step_events j) \<longrightarrow>
        NMI_release \<notin> set (step_events j) \<and>
        NMI_release \<notin> set (step_events (j + 1)) \<and>
        NMI_release \<in> set (step_events (j + 2)))"
proof (intro conjI allI impI)
  show "assert_count N = N div unat INSTRUCTIONS_PER_NMI"
    by (simp add: assert_count_eq INSTRUCTIONS_PER_NMI_def)
next
  fix j
  assume a: "0 < j \<and> NMI_assert \<in> set (step_events j)"
  then have m: "j mod 300 = 0"
    by (auto simp: step_events_pos split: if_splits)
  then have "300 dvd j"
    by (simp add: mod_eq_0_iff_dvd)
  then have ge: "300 \<le> j"
    using a by (auto dest: dvd_imp_le)
  have m1: "(j + 1) mod 300 = 1"
    using mod_300_Suc(2)[of j] m by simp
  have m2: "(j + 2) mod 300 = 2"
    using mod_300_Suc(2)[of "j + 1"] m1 by simp
  show "NMI_release \<notin> set (step_events j)"
    using a m by (simp add: step_events_pos)
  show "NMI_release \<notin> set (step_events (j + 1))"
    using m1 by (simp add: step_events_pos)
  show "NMI_release \<in> set (step_events (j + 2))"
    using m2 ge by (simp add: step_events_pos)
qed

theorem nmi_pacing_witness:
  "assert_count 900 = 3 \<and> NMI_release \<notin> set (step_events 301) \<and> NMI_release \<in> set (step_events 302)"
proof -
  have a: "0 < (300::nat) \<and> NMI_assert \<in> set (step_events 300)"
    by (simp add: step_events_pos)
  have n: "900 div unat INSTRUCTIONS_PER_NMI = 3"
    by (simp add: INSTRUCTIONS_PER_NMI_def)
  show ?thesis
    using nmi_pacing[of 900, THEN conjunct1]
      nmi_pacing[of 900, THEN conjunct2, rule_format, OF a]
    by (simp add: n)
qed

text \<open>
  C10 as the claim states it fails in its last part: the line asserted in step 300 is
  released in step 302, and step 303 releases nothing.
\<close>

theorem nmi_release_counterexample:
  "NMI_assert \<in> set (step_events 300) \<and>
   NMI_release \<in> set (step_events 302) \<and>
   NMI_release \<notin> set (step_events 303)"
  by (simp add: step_events_pos)

section \<open>The stack pointer during a run\<close>

text \<open>
  The bound on the stack pointer that the call and return result assumes holds in every
  state the machine reaches: activation sets the pointer to 0, each pass of the loop keeps it
  below 16 and keeps the four stack entries.
\<close>

lemma and_f_less: "(w::u8) AND 0xf < 16"
  by (simp add: word_less_nat_alt unat_and_f)

lemma dvg_add_vector_stack:
  "dvg_stack_ptr (fst (dvg_add_vector dx dy i (s, vb))) = dvg_stack_ptr s"
  "dvg_stack (fst (dvg_add_vector dx dy i (s, vb))) = dvg_stack s"
  by (simp_all add: dvg_add_vector_def Let_def)

lemma dvg_update_databus_stack:
  "dvg_stack_ptr (dvg_update_databus cfg vram s) = dvg_stack_ptr s"
  "dvg_stack (dvg_update_databus cfg vram s) = dvg_stack s"
  by (simp_all add: dvg_update_databus_def Let_def)

lemma dvg_dispatch_stack:
  assumes "stack_ok (s, vb)"
  shows "stack_ok (snd (dvg_dispatch h (s, vb)))"
  using assms
  by (simp add: dvg_dispatch_def stack_ok_def dvg_handler_0_def dvg_handler_1_def
        dvg_handler_2_def dvg_handler_3_def dvg_handler_4_def dvg_handler_5_def dvg_handler_6_def
        dvg_handler_7_def dvg_process_vector_def dvg_add_vector_stack Let_def and_f_less)

lemma dvg_cycle_stack:
  assumes "stack_ok sv"
  shows "stack_ok (snd (dvg_cycle cfg vram sv))"
proof (cases sv)
  case (Pair s vb)
  have a: "stack_ok (s, vb)" using assms Pair by simp
  have b: "\<And>s'. dvg_stack_ptr s' = dvg_stack_ptr s \<Longrightarrow> dvg_stack s' = dvg_stack s \<Longrightarrow> stack_ok (s', vb)"
    using a by (simp add: stack_ok_def)
  show ?thesis
    unfolding Pair dvg_cycle_def
    by (simp add: Let_def b dvg_dispatch_stack dvg_update_databus_stack)
qed

lemma dvg_go_stack:
  assumes "length (dvg_stack (dvg_state m)) = 4"
  shows "dvg_stack_ptr (dvg_state (dvg_go cfg v m)) < 16 \<and> length (dvg_stack (dvg_state (dvg_go cfg v m))) = 4"
proof -
  let ?m = "m\<lparr>dvg_frame_count := dvg_frame_count m + 1,
          dvg_state := (dvg_state m)\<lparr>dvg_pc := push_bit 8 (ucast (v AND 0x0F)),
                                     dvg_running := True, dvg_halt := False, dvg_stack_ptr := 0,
                                     dvg_state_latch := 0x00, dvg_op := 0, dvg_data := 0,
                                     dvg_dvx := 0, dvg_dvy := 0\<rparr>,
          vector_buffer := (vector_buffer m)\<lparr>vb_count := 0\<rparr>\<rparr>"
  have a: "stack_ok ((dvg_state ?m)\<lparr>dvg_halt := False\<rparr>, vector_buffer ?m)"
    using assms by (simp add: stack_ok_def)
  have "stack_ok (fst (dvg_loop cfg (vector_ram ?m) 1000 0 0
           ((dvg_state ?m)\<lparr>dvg_halt := False\<rparr>, vector_buffer ?m)))"
    by (rule dvg_loop_invariant[where P = stack_ok, OF _ a]) (simp add: dvg_cycle_stack)
  then show ?thesis
    by (simp add: dvg_go_def dvg_run_state_machine_def Let_def stack_ok_def)
qed

end
